theory Spec2Isabelle
  imports Complex_Main "HOL-Library.Monad_Syntax"
begin

section \<open>FloorPlan360: the scene, selection and transform engine of floorplan.py\<close>

text \<open>
  The editor of \<^verbatim>\<open>src/floorplan.py\<close> is modelled over the reals: Python's floats and
  ints are both \<open>real\<close>, and the arithmetic is exact, except where the code truncates
  or reduces a float (\<^verbatim>\<open>int(...)\<close> and \<^verbatim>\<open>% 360.0\<close> in the text transforms): there the last
  bit of the float decides the result, and every float operation on the way is rounded
  to a double by \<open>fl\<close>.
  A handler that raises (a missing dictionary key, a division by zero) returns \<open>None\<close>,
  whatever it had changed before raising;
  a handler that completes returns \<open>Some\<close> of its result or of the editor it leaves.
  Tk widgets, PIL images and the canvas are not part of the model: \<^verbatim>\<open>_redraw\<close> only
  repaints and refreshes the render caches of the items.
\<close>

subsection \<open>Configuration\<close>

definition GRID_SIZE_PX :: real where "GRID_SIZE_PX = 32"
definition GRID_METERS :: real where "GRID_METERS = 1 / 2"
definition MIN_ZOOM :: real where "MIN_ZOOM = 4 / 10"
definition MAX_ZOOM :: real where "MAX_ZOOM = 25 / 10"
definition TEXT_COLOR :: string where "TEXT_COLOR = ''#111111''"
definition HIT_TOL :: real where "HIT_TOL = 8"
definition HANDLE_SIZE :: real where "HANDLE_SIZE = 8"
definition ROTATE_HANDLE_OFFSET :: real where "ROTATE_HANDLE_OFFSET = 28"

subsection \<open>Python arithmetic\<close>

text \<open>\<^verbatim>\<open>a / b\<close>: raises ZeroDivisionError when \<open>b\<close> is zero.\<close>

definition py_div :: "real \<Rightarrow> real \<Rightarrow> real option" where
  "py_div a b = (if b = 0 then None else Some (a / b))"

text \<open>\<^verbatim>\<open>round(x)\<close> of Python 3: to the nearest integer, a tie to the even one.\<close>

definition py_round :: "real \<Rightarrow> real" where
  "py_round x =
     (let f = \<lfloor>x\<rfloor>; d = x - of_int f
      in if d < 1 / 2 then of_int f
         else if 1 / 2 < d then of_int (f + 1)
         else if even f then of_int f else of_int (f + 1))"

text \<open>\<^verbatim>\<open>int(x)\<close>: truncation towards zero.\<close>

definition py_int :: "real \<Rightarrow> real" where
  "py_int x = (if 0 \<le> x then of_int \<lfloor>x\<rfloor> else of_int \<lceil>x\<rceil>)"

text \<open>
  The double nearest to a real, a tie going to the even significand: with \<open>e\<close> the
  binary exponent of \<open>x\<close>, the doubles around \<open>x\<close> are the multiples of \<open>2 powr (e - 52)\<close>.
  Overflow, subnormal numbers and the special values are outside the model.
\<close>

definition fl :: "real \<Rightarrow> real" where
  "fl x =
     (if x = 0 then 0
      else (let e = \<lfloor>log 2 \<bar>x\<bar>\<rfloor>; u = 2 powr (of_int e - 52)
            in py_round (x / u) * u))"

text \<open>
  \<^verbatim>\<open>x % m\<close> on floats, as CPython computes it: the exact remainder \<^verbatim>\<open>fmod(x, m)\<close>, which has
  the sign of \<open>x\<close>, and when its sign is not that of \<open>m\<close> the float sum of it and \<open>m\<close>.
\<close>

definition py_mod :: "real \<Rightarrow> real \<Rightarrow> real" where
  "py_mod x m =
     (let r = x - m * py_int (x / m)
      in if r = 0 then 0
         else if (m < 0) \<noteq> (r < 0) then fl (r + m)
         else r)"

definition hypot :: "real \<Rightarrow> real \<Rightarrow> real" where
  "hypot x y = sqrt (x * x + y * y)"

text \<open>\<^verbatim>\<open>math.atan2(y, x)\<close>, the angle of the point \<open>(x, y)\<close> in \<open>(-pi, pi]\<close>; 0 at the origin.\<close>

definition atan2 :: "real \<Rightarrow> real \<Rightarrow> real" where
  "atan2 y x =
     (if 0 < x then arctan (y / x)
      else if x < 0 \<and> 0 \<le> y then arctan (y / x) + pi
      else if x < 0 then arctan (y / x) - pi
      else if 0 < y then pi / 2
      else if y < 0 then - (pi / 2)
      else 0)"

definition degrees :: "real \<Rightarrow> real" where
  "degrees r = r * 180 / pi"

definition radians :: "real \<Rightarrow> real" where
  "radians d = d * pi / 180"

subsection \<open>Geometry kernel\<close>

definition clamp :: "real \<Rightarrow> real \<Rightarrow> real \<Rightarrow> real" where
  "clamp v lo hi = max lo (min hi v)"

definition dist_point_to_segment ::
  "real \<Rightarrow> real \<Rightarrow> real \<Rightarrow> real \<Rightarrow> real \<Rightarrow> real \<Rightarrow> real option" where
  "dist_point_to_segment px py x1 y1 x2 y2 =
     (let dx = x2 - x1; dy = y2 - y1
      in if dx = dy \<and> dy = 0 then Some (hypot (px - x1) (py - y1))
         else do {
           q \<leftarrow> py_div ((px - x1) * dx + (py - y1) * dy) (dx * dx + dy * dy);
           let t = max 0 (min 1 q);
           let qx = x1 + t * dx;
           let qy = y1 + t * dy;
           Some (hypot (px - qx) (py - qy))
         })"

definition screen_angle :: "real \<Rightarrow> real \<Rightarrow> real \<Rightarrow> real \<Rightarrow> real" where
  "screen_angle cx cy px py = degrees (atan2 (cy - py) (px - cx))"

text \<open>\<^verbatim>\<open>L = math.hypot(nx, ny) or 1.0\<close>: a zero length is replaced by 1.\<close>

definition seg_normal :: "real \<Rightarrow> real \<Rightarrow> real \<Rightarrow> real \<Rightarrow> (real \<times> real) option" where
  "seg_normal x1 y1 x2 y2 =
     (let nx = x2 - x1; ny = y2 - y1;
          L = (if hypot nx ny = 0 then 1 else hypot nx ny)
      in do {
        a \<leftarrow> py_div (- ny) L;
        b \<leftarrow> py_div nx L;
        Some (a, b)
      })"

type_synonym rect = "real \<times> real \<times> real \<times> real"

definition rect_norm :: "real \<Rightarrow> real \<Rightarrow> real \<Rightarrow> real \<Rightarrow> rect" where
  "rect_norm x0 y0 x1 y1 = (min x0 x1, min y0 y1, max x0 x1, max y0 y1)"

definition point_in_rect :: "real \<Rightarrow> real \<Rightarrow> rect \<Rightarrow> bool" where
  "point_in_rect px py r =
     (case r of (a, b, c, d) \<Rightarrow>
        (case rect_norm a b c d of (x0, y0, x1, y1) \<Rightarrow>
           (x0 \<le> px \<and> px \<le> x1) \<and> (y0 \<le> py \<and> py \<le> y1)))"

definition ccw :: "real \<times> real \<Rightarrow> real \<times> real \<Rightarrow> real \<times> real \<Rightarrow> bool" where
  "ccw a b c = ((snd c - snd a) * (fst b - fst a) > (snd b - snd a) * (fst c - fst a))"

definition segments_intersect ::
  "real \<times> real \<Rightarrow> real \<times> real \<Rightarrow> real \<times> real \<Rightarrow> real \<times> real \<Rightarrow> bool" where
  "segments_intersect a b c d = ((ccw a c d \<noteq> ccw b c d) \<and> (ccw a b c \<noteq> ccw a b d))"

definition seg_intersects_rect :: "real \<times> real \<Rightarrow> real \<times> real \<Rightarrow> rect \<Rightarrow> bool" where
  "seg_intersects_rect p1 p2 r =
     (if point_in_rect (fst p1) (snd p1) r \<or> point_in_rect (fst p2) (snd p2) r then True
      else (case r of (a, b, c, d) \<Rightarrow>
        (case rect_norm a b c d of (x0, y0, x1, y1) \<Rightarrow>
           list_ex (\<lambda>e. segments_intersect p1 p2 (fst e) (snd e))
             [((x0, y0), (x1, y0)), ((x1, y0), (x1, y1)),
              ((x1, y1), (x0, y1)), ((x0, y1), (x0, y0))])))"

definition rects_intersect :: "rect \<Rightarrow> rect \<Rightarrow> bool" where
  "rects_intersect a b =
     (case a of (a0, a1, a2, a3) \<Rightarrow> case b of (b0, b1, b2, b3) \<Rightarrow>
        (case rect_norm a0 a1 a2 a3 of (ax0, ay0, ax1, ay1) \<Rightarrow>
           (case rect_norm b0 b1 b2 b3 of (bx0, by0, bx1, by1) \<Rightarrow>
              \<not> (ax1 < bx0 \<or> bx1 < ax0 \<or> ay1 < by0 \<or> by1 < ay0))))"

subsection \<open>Items and the editor state\<close>

text \<open>
  \<^verbatim>\<open>Item.data\<close> is a dictionary; its values are points (a pair or a two-element
  JSON list), numbers, strings and booleans. Reading a key that is absent, or that
  holds a value of another shape than the code unpacks, raises.
\<close>

datatype val = Pt real real | Num real | Str string | Flag bool

record item =
  kind :: string
  data :: "string \<rightharpoonup> val"
  selected :: bool
  last_render_key :: "(string \<times> real \<times> string \<times> real) option"
  bbox_canvas :: "rect option"

definition get_pt :: "item \<Rightarrow> string \<Rightarrow> (real \<times> real) option" where
  "get_pt it k = (case data it k of Some (Pt x y) \<Rightarrow> Some (x, y) | _ \<Rightarrow> None)"

definition get_num :: "item \<Rightarrow> string \<Rightarrow> real option" where
  "get_num it k = (case data it k of Some (Num x) \<Rightarrow> Some x | _ \<Rightarrow> None)"

definition set_data :: "item \<Rightarrow> string \<Rightarrow> val \<Rightarrow> item" where
  "set_data it k v = it\<lparr>data := (data it)(k \<mapsto> v)\<rparr>"

text \<open>\<^verbatim>\<open>Item(kind, data)\<close>: a new object with empty caches.\<close>

definition Item :: "string \<Rightarrow> (string \<rightharpoonup> val) \<Rightarrow> item" where
  "Item k d = \<lparr>kind = k, data = d, selected = False, last_render_key = None,
               bbox_canvas = None\<rparr>"

text \<open>
  The transform session \<^verbatim>\<open>draw_state["transform"]\<close>, one constructor per mode, with
  the keys each mode stores. Items are objects: the editor holds references (natural
  numbers) into a store \<open>heap\<close>, and \<open>next_ref\<close> is the next unused reference.
\<close>

datatype transform =
    MoveAny "real \<times> real" "nat option"
  | MoveGroup "real \<times> real"
  | ScaleText nat string bool rect val
  | RotateText nat "real \<times> real" real real
  | RoomResize nat string
  | SegEndpoint nat string
  | SegRotate nat "real \<times> real" real real

record editor =
  heap :: "nat \<Rightarrow> item"
  next_ref :: nat
  items :: "nat list"
  active_tool :: string
  snap_enabled :: bool
  grid_m :: real
  zoom :: real
  origin :: "real \<times> real"
  temp_preview :: "(string \<times> (real \<times> real) \<times> (real \<times> real)) option"
  ds_start :: "(real \<times> real) option"
  ds_ruler_start :: "(real \<times> real) option"
  ds_marquee :: "((real \<times> real) \<times> (real \<times> real)) option"
  ds_transform :: "transform option"
  selection :: "nat option"
  selected_items :: "nat list"
  pan_active :: bool
  pan_space :: bool
  pan_start :: "real \<times> real"
  keep_rulers :: bool
  rulers :: "((real \<times> real) \<times> (real \<times> real)) list"

text \<open>The state \<^verbatim>\<open>FloorPlanApp.__init__\<close> sets up.\<close>

definition init_editor :: editor where
  "init_editor =
     \<lparr>heap = (\<lambda>_. Item [] Map.empty), next_ref = 0, items = [],
      active_tool = ''select'', snap_enabled = True, grid_m = GRID_METERS,
      zoom = 1, origin = (80, 80), temp_preview = None,
      ds_start = None, ds_ruler_start = None, ds_marquee = None, ds_transform = None,
      selection = None, selected_items = [],
      pan_active = False, pan_space = False, pan_start = (0, 0),
      keep_rulers = False, rulers = []\<rparr>"

subsection \<open>Coordinates\<close>

definition grid_px :: "editor \<Rightarrow> real" where
  "grid_px e = GRID_SIZE_PX * zoom e"

definition world_to_canvas :: "editor \<Rightarrow> real \<Rightarrow> real \<Rightarrow> real \<times> real" where
  "world_to_canvas e x y =
     (fst (origin e) + x * grid_px e, snd (origin e) + y * grid_px e)"

definition canvas_to_world :: "editor \<Rightarrow> real \<Rightarrow> real \<Rightarrow> (real \<times> real) option" where
  "canvas_to_world e px py = do {
     wx \<leftarrow> py_div (px - fst (origin e)) (grid_px e);
     wy \<leftarrow> py_div (py - snd (origin e)) (grid_px e);
     Some (wx, wy)
   }"

definition snap_world :: "editor \<Rightarrow> real \<Rightarrow> real \<Rightarrow> real \<times> real" where
  "snap_world e wx wy = (if \<not> snap_enabled e then (wx, wy) else (py_round wx, py_round wy))"

text \<open>
  The opening of every pointer handler:
  \<^verbatim>\<open>wx, wy = self.canvas_to_world(px, py); if self.snap_enabled.get(): wx, wy = self.snap_world(wx, wy)\<close>.
\<close>

definition pointer_world :: "editor \<Rightarrow> real \<Rightarrow> real \<Rightarrow> (real \<times> real) option" where
  "pointer_world e px py = do {
     (wx, wy) \<leftarrow> canvas_to_world e px py;
     Some (if snap_enabled e then snap_world e wx wy else (wx, wy))
   }"

subsection \<open>Scene operations\<close>

definition segment_kind :: "string \<Rightarrow> bool" where
  "segment_kind k = (k = ''wall'' \<or> k = ''door'' \<or> k = ''window'')"

definition set_item :: "editor \<Rightarrow> nat \<Rightarrow> item \<Rightarrow> editor" where
  "set_item e r it = e\<lparr>heap := (heap e)(r := it)\<rparr>"

text \<open>\<^verbatim>\<open>self.items.append(Item(kind, data))\<close>: the new object gets an unused reference.\<close>

definition append_item :: "editor \<Rightarrow> item \<Rightarrow> editor" where
  "append_item e it =
     e\<lparr>heap := (heap e)(next_ref e := it), items := items e @ [next_ref e],
       next_ref := Suc (next_ref e)\<rparr>"

text \<open>\<^verbatim>\<open>_move_item\<close>: an item of any other kind falls through every branch.\<close>

definition move_item :: "editor \<Rightarrow> nat \<Rightarrow> real \<Rightarrow> real \<Rightarrow> editor option" where
  "move_item e r dx dy =
     (let it = heap e r in
      if segment_kind (kind it) then do {
        (ax, ay) \<leftarrow> get_pt it ''a'';
        (bx, by) \<leftarrow> get_pt it ''b'';
        Some (set_item e r
          (set_data (set_data it ''a'' (Pt (ax + dx) (ay + dy))) ''b'' (Pt (bx + dx) (by + dy))))
      }
      else if kind it = ''room'' then do {
        (ax, ay) \<leftarrow> get_pt it ''a'';
        (bx, by) \<leftarrow> get_pt it ''b'';
        Some (set_item e r
          (set_data (set_data it ''a'' (Pt (ax + dx) (ay + dy))) ''b'' (Pt (bx + dx) (by + dy))))
      }
      else if kind it = ''text'' then do {
        (px, py) \<leftarrow> get_pt it ''p'';
        Some (set_item e r (set_data it ''p'' (Pt (px + dx) (py + dy))))
      }
      else Some e)"

text \<open>\<^verbatim>\<open>for it in self.selected_items: self._move_item(it, dx, dy)\<close>\<close>

fun move_items :: "editor \<Rightarrow> nat list \<Rightarrow> real \<Rightarrow> real \<Rightarrow> editor option" where
  "move_items e [] dx dy = Some e"
| "move_items e (r # rs) dx dy = do { e' \<leftarrow> move_item e r dx dy; move_items e' rs dx dy }"

text \<open>
  \<^verbatim>\<open>_hit_test\<close>. One pass of the loop body either returns an item at once (a text
  whose cached box holds the point) or goes on with the best candidate so far.
\<close>

datatype scan = Return nat | Continue "nat option" real

definition hit_test_step ::
  "editor \<Rightarrow> real \<Rightarrow> real \<Rightarrow> nat \<Rightarrow> nat option \<Rightarrow> real \<Rightarrow> scan option" where
  "hit_test_step e px py r best bestd =
     (let it = heap e r in
      if segment_kind (kind it) then do {
        (ax, ay) \<leftarrow> get_pt it ''a'';
        (bx, by) \<leftarrow> get_pt it ''b'';
        let (x1, y1) = world_to_canvas e ax ay;
        let (x2, y2) = world_to_canvas e bx by;
        d \<leftarrow> dist_point_to_segment px py x1 y1 x2 y2;
        Some (if d \<le> HIT_TOL \<and> d < bestd then Continue (Some r) d else Continue best bestd)
      }
      else if kind it = ''room'' then do {
        (ax, ay) \<leftarrow> get_pt it ''a'';
        (bx, by) \<leftarrow> get_pt it ''b'';
        let (x0, y0) = world_to_canvas e (min ax bx) (min ay by);
        let (x1, y1) = world_to_canvas e (max ax bx) (max ay by);
        Some (if x0 - HIT_TOL \<le> px \<and> px \<le> x1 + HIT_TOL \<and>
                 y0 - HIT_TOL \<le> py \<and> py \<le> y1 + HIT_TOL
              then (let d = min (min (min \<bar>px - x0\<bar> \<bar>px - x1\<bar>) \<bar>py - y0\<bar>) \<bar>py - y1\<bar>
                    in if d < bestd then Continue (Some r) d else Continue best bestd)
              else Continue best bestd)
      }
      else if kind it = ''text'' then
        (case bbox_canvas it of
           Some (x0, y0, x1, y1) \<Rightarrow>
             Some (if (x0 \<le> px \<and> px \<le> x1) \<and> (y0 \<le> py \<and> py \<le> y1) then Return r
                   else Continue best bestd)
         | None \<Rightarrow> Some (Continue best bestd))
      else Some (Continue best bestd))"

fun hit_test_loop ::
  "editor \<Rightarrow> real \<Rightarrow> real \<Rightarrow> nat list \<Rightarrow> nat option \<Rightarrow> real \<Rightarrow> nat option option" where
  "hit_test_loop e px py [] best bestd = Some best"
| "hit_test_loop e px py (r # rs) best bestd =
     (case hit_test_step e px py r best bestd of
        None \<Rightarrow> None
      | Some (Return it) \<Rightarrow> Some (Some it)
      | Some (Continue b d) \<Rightarrow> hit_test_loop e px py rs b d)"

definition hit_test :: "editor \<Rightarrow> real \<Rightarrow> real \<Rightarrow> nat option option" where
  "hit_test e px py = hit_test_loop e px py (items e) None 1000000000"

text \<open>\<^verbatim>\<open>_clear_selection\<close>\<close>

definition clear_selection :: "editor \<Rightarrow> editor" where
  "clear_selection e =
     e\<lparr>heap := fold (\<lambda>r h. h(r := (h r)\<lparr>selected := False\<rparr>)) (items e) (heap e),
       selection := None, selected_items := []\<rparr>"

text \<open>
  \<^verbatim>\<open>_delete_item\<close>. \<^verbatim>\<open>list.remove\<close> takes out the first occurrence; the ValueError
  of an absent element is caught for the multi-selection.
\<close>

definition delete_item :: "editor \<Rightarrow> nat \<Rightarrow> editor" where
  "delete_item e r =
     (if r \<in> set (items e)
      then e\<lparr>selected_items := remove1 r (selected_items e),
             selection := (if selection e = Some r then None else selection e),
             items := remove1 r (items e)\<rparr>
      else e)"

text \<open>The eraser branch of \<^verbatim>\<open>_on_left_down\<close>.\<close>

definition erase_at :: "editor \<Rightarrow> real \<Rightarrow> real \<Rightarrow> editor option" where
  "erase_at e px py = do {
     hit \<leftarrow> hit_test e px py;
     (case hit of
        None \<Rightarrow> Some e
      | Some r \<Rightarrow>
          Some (e\<lparr>selection := (if selection e = Some r then None else selection e),
                  selected_items := remove1 r (selected_items e),
                  items := remove1 r (items e)\<rparr>))
   }"

text \<open>\<^verbatim>\<open>delete_selection\<close>\<close>

definition delete_selection :: "editor \<Rightarrow> editor" where
  "delete_selection e =
     (if selected_items e \<noteq> [] then
        e\<lparr>items := fold (\<lambda>r xs. if r \<in> set xs then remove1 r xs else xs)
                     (selected_items e) (items e),
          selected_items := [], selection := None\<rparr>
      else (case selection e of
              Some r \<Rightarrow>
                e\<lparr>items := (if r \<in> set (items e) then remove1 r (items e) else items e),
                  selection := None\<rparr>
            | None \<Rightarrow> e))"

subsection \<open>Transform sessions\<close>

definition begin_move_selected :: "editor \<Rightarrow> real \<Rightarrow> real \<Rightarrow> editor option" where
  "begin_move_selected e px py = do {
     (wx, wy) \<leftarrow> pointer_world e px py;
     Some (e\<lparr>ds_transform := Some (MoveAny (wx, wy) (selection e))\<rparr>)
   }"

definition begin_move_group :: "editor \<Rightarrow> real \<Rightarrow> real \<Rightarrow> editor option" where
  "begin_move_group e px py = do {
     (wx, wy) \<leftarrow> pointer_world e px py;
     Some (e\<lparr>ds_transform := Some (MoveGroup (wx, wy))\<rparr>)
   }"

text \<open>\<^verbatim>\<open>_begin_text_scale\<close>: unpacking an absent box or reading an absent size raises.\<close>

definition begin_text_scale ::
  "editor \<Rightarrow> nat \<Rightarrow> real \<Rightarrow> real \<Rightarrow> string \<Rightarrow> bool \<Rightarrow> editor option" where
  "begin_text_scale e r px py handle_tag keep_ratio = do {
     bb \<leftarrow> bbox_canvas (heap e r);
     sz \<leftarrow> data (heap e r) ''size'';
     Some (e\<lparr>ds_transform := Some (ScaleText r handle_tag keep_ratio bb sz)\<rparr>)
   }"

text \<open>
  The scale factor of \<^verbatim>\<open>_update_text_scale\<close>, before it is clamped. The divisors are
  \<^verbatim>\<open>max(1, x1 - cx)\<close> and \<^verbatim>\<open>max(1, y1 - cy)\<close>, at least 1, so the divisions cannot raise.
  Every sum, difference and quotient is a float operation; halving a float is exact.
\<close>

definition text_scale_factor :: "string \<Rightarrow> bool \<Rightarrow> rect \<Rightarrow> real \<Rightarrow> real \<Rightarrow> real" where
  "text_scale_factor handle_tag keep_ratio bb px py =
     (case bb of (x0, y0, x1, y1) \<Rightarrow>
        (let cx = fl (x0 + x1) / 2; cy = fl (y0 + y1) / 2;
             dx = fl (\<bar>fl (px - cx)\<bar> / max 1 (fl (x1 - cx)));
             dy = fl (\<bar>fl (py - cy)\<bar> / max 1 (fl (y1 - cy)))
         in if handle_tag = ''n'' \<or> handle_tag = ''s'' then dy
            else if handle_tag = ''e'' \<or> handle_tag = ''w'' then dx
            else if keep_ratio then max dx dy else fl (dx + dy) / 2))"

text \<open>
  \<^verbatim>\<open>_update_text_scale\<close>. The literal \<^verbatim>\<open>0.2\<close> is the double nearest to 0.2; the product
  \<^verbatim>\<open>t["start_size"]*scale\<close> is the float product of the size as a float and the scale,
  and \<^verbatim>\<open>int\<close> truncates that float.
\<close>

definition update_text_scale :: "editor \<Rightarrow> real \<Rightarrow> real \<Rightarrow> editor option" where
  "update_text_scale e px py =
     (case ds_transform e of
        Some (ScaleText r handle_tag keep_ratio bb sz) \<Rightarrow>
          (let scale = clamp (text_scale_factor handle_tag keep_ratio bb px py) (fl (2 / 10)) 8
           in case sz of
                Num start_size \<Rightarrow>
                  (let new_size = clamp (py_int (fl (fl start_size * scale))) 8 512
                   in do {
                     cur \<leftarrow> data (heap e r) ''size'';
                     Some (if Num new_size \<noteq> cur
                           then set_item e r
                                  ((set_data (heap e r) ''size'' (Num new_size))
                                     \<lparr>last_render_key := None\<rparr>)
                           else e)
                   })
              | _ \<Rightarrow> None)
      | _ \<Rightarrow> None)"

text \<open>
  \<^verbatim>\<open>_begin_text_rotate\<close> and \<^verbatim>\<open>_update_text_rotate\<close>. The angle of the item is read as a
  number (a string that spells a number, which \<^verbatim>\<open>float\<close> would accept, is outside the
  model). \<^verbatim>\<open>math.atan2\<close> and \<^verbatim>\<open>math.degrees\<close> are taken as exact; the difference, the sum
  and the remainder of the update are float operations.
\<close>

definition begin_text_rotate :: "editor \<Rightarrow> nat \<Rightarrow> real \<Rightarrow> real \<Rightarrow> editor option" where
  "begin_text_rotate e r px py = do {
     (x, y) \<leftarrow> get_pt (heap e r) ''p'';
     let (cx, cy) = world_to_canvas e x y;
     let ang0 = screen_angle cx cy px py;
     a \<leftarrow> get_num (heap e r) ''angle'';
     Some (e\<lparr>ds_transform := Some (RotateText r (cx, cy) ang0 a)\<rparr>)
   }"

definition update_text_rotate :: "editor \<Rightarrow> real \<Rightarrow> real \<Rightarrow> editor option" where
  "update_text_rotate e px py =
     (case ds_transform e of
        Some (RotateText r (cx, cy) start_cursor start_angle) \<Rightarrow>
          (let ang = screen_angle cx cy px py
           in Some (set_item e r
                ((set_data (heap e r) ''angle''
                    (Num (py_mod (fl (start_angle + fl (ang - start_cursor))) 360)))
                   \<lparr>last_render_key := None\<rparr>)))
      | _ \<Rightarrow> None)"

definition begin_room_resize :: "editor \<Rightarrow> nat \<Rightarrow> real \<Rightarrow> real \<Rightarrow> string \<Rightarrow> editor" where
  "begin_room_resize e r px py handle_tag = e\<lparr>ds_transform := Some (RoomResize r handle_tag)\<rparr>"

definition update_room_resize :: "editor \<Rightarrow> real \<Rightarrow> real \<Rightarrow> editor option" where
  "update_room_resize e px py =
     (case ds_transform e of
        Some (RoomResize r tag) \<Rightarrow> do {
          (ax, ay) \<leftarrow> get_pt (heap e r) ''a'';
          (bx, by) \<leftarrow> get_pt (heap e r) ''b'';
          (wx, wy) \<leftarrow> pointer_world e px py;
          let x0 = min ax bx; let y0 = min ay by; let x1 = max ax bx; let y1 = max ay by;
          let x0 = (if tag = ''w'' \<or> tag = ''nw'' \<or> tag = ''sw'' then min wx (x1 - 1 / 100) else x0);
          let x1 = (if tag = ''e'' \<or> tag = ''ne'' \<or> tag = ''se'' then max wx (x0 + 1 / 100) else x1);
          let y0 = (if tag = ''n'' \<or> tag = ''nw'' \<or> tag = ''ne'' then min wy (y1 - 1 / 100) else y0);
          let y1 = (if tag = ''s'' \<or> tag = ''sw'' \<or> tag = ''se'' then max wy (y0 + 1 / 100) else y1);
          Some (set_item e r
            (set_data (set_data (heap e r) ''a'' (Pt x0 y0)) ''b'' (Pt x1 y1)))
        }
      | _ \<Rightarrow> None)"

definition begin_segment_endpoint :: "editor \<Rightarrow> nat \<Rightarrow> real \<Rightarrow> real \<Rightarrow> string \<Rightarrow> editor" where
  "begin_segment_endpoint e r px py which = e\<lparr>ds_transform := Some (SegEndpoint r which)\<rparr>"

definition update_segment_endpoint :: "editor \<Rightarrow> real \<Rightarrow> real \<Rightarrow> editor option" where
  "update_segment_endpoint e px py =
     (case ds_transform e of
        Some (SegEndpoint r which) \<Rightarrow> do {
          (wx, wy) \<leftarrow> pointer_world e px py;
          Some (if which = ''a'' then set_item e r (set_data (heap e r) ''a'' (Pt wx wy))
                else set_item e r (set_data (heap e r) ''b'' (Pt wx wy)))
        }
      | _ \<Rightarrow> None)"

definition begin_segment_rotate :: "editor \<Rightarrow> nat \<Rightarrow> real \<Rightarrow> real \<Rightarrow> editor option" where
  "begin_segment_rotate e r px py = do {
     (ax, ay) \<leftarrow> get_pt (heap e r) ''a'';
     (bx, by) \<leftarrow> get_pt (heap e r) ''b'';
     let cx = (ax + bx) / 2; let cy = (ay + by) / 2;
     let (sx, sy) = world_to_canvas e cx cy;
     Some (e\<lparr>ds_transform :=
       Some (SegRotate r (cx, cy) (hypot (bx - ax) (by - ay)) (screen_angle sx sy px py))\<rparr>)
   }"

text \<open>
  The two endpoints \<^verbatim>\<open>_update_segment_rotate\<close> computes before it snaps them:
  \<^verbatim>\<open>L = max(1e-6, t["len"])\<close>, \<^verbatim>\<open>theta = math.radians(ang - t["start_cursor"])\<close>,
  \<^verbatim>\<open>dx, dy = (L/2)*cos(theta), (L/2)*sin(theta)\<close>.
\<close>

definition segment_rotate_points ::
  "editor \<Rightarrow> real \<times> real \<Rightarrow> real \<Rightarrow> real \<Rightarrow> real \<Rightarrow> real \<Rightarrow> (real \<times> real) \<times> (real \<times> real)" where
  "segment_rotate_points e c len start_cursor px py =
     (case c of (cx, cy) \<Rightarrow>
        (let L = max (1 / 1000000) len;
             (sx, sy) = world_to_canvas e cx cy;
             ang = screen_angle sx sy px py;
             d_ang = ang - start_cursor;
             theta = radians d_ang;
             dx = (L / 2) * cos theta;
             dy = (L / 2) * sin theta
         in ((cx - dx, cy - dy), (cx + dx, cy + dy))))"

definition update_segment_rotate :: "editor \<Rightarrow> real \<Rightarrow> real \<Rightarrow> editor option" where
  "update_segment_rotate e px py =
     (case ds_transform e of
        Some (SegRotate r c len start_cursor) \<Rightarrow>
          (case segment_rotate_points e c len start_cursor px py of
             (a, b) \<Rightarrow>
               (let a' = (if snap_enabled e then snap_world e (fst a) (snd a) else a);
                    b' = (if snap_enabled e then snap_world e (fst b) (snd b) else b)
                in Some (set_item e r
                     (set_data (set_data (heap e r) ''a'' (Pt (fst a') (snd a')))
                        ''b'' (Pt (fst b') (snd b'))))))
      | _ \<Rightarrow> None)"

text \<open>\<^verbatim>\<open>_continue_transform\<close>: the dispatch on the session's mode.\<close>

definition continue_transform :: "editor \<Rightarrow> real \<Rightarrow> real \<Rightarrow> editor option" where
  "continue_transform e px py =
     (case ds_transform e of
        None \<Rightarrow> Some e
      | Some (MoveAny (sx, sy) it) \<Rightarrow> do {
          (wx, wy) \<leftarrow> pointer_world e px py;
          let dx = wx - sx; let dy = wy - sy;
          let e1 = e\<lparr>ds_transform := Some (MoveAny (wx, wy) it)\<rparr>;
          r \<leftarrow> it;
          move_item e1 r dx dy
        }
      | Some (MoveGroup (sx, sy)) \<Rightarrow> do {
          (wx, wy) \<leftarrow> pointer_world e px py;
          let dx = wx - sx; let dy = wy - sy;
          let e1 = e\<lparr>ds_transform := Some (MoveGroup (wx, wy))\<rparr>;
          move_items e1 (selected_items e1) dx dy
        }
      | Some (ScaleText r h k bb sz) \<Rightarrow> update_text_scale e px py
      | Some (RotateText r c sc sa) \<Rightarrow> update_text_rotate e px py
      | Some (RoomResize r h) \<Rightarrow> update_room_resize e px py
      | Some (SegEndpoint r w) \<Rightarrow> update_segment_endpoint e px py
      | Some (SegRotate r c l sc) \<Rightarrow> update_segment_rotate e px py)"

subsection \<open>Handles and selection\<close>

definition handle_size :: "editor \<Rightarrow> real" where
  "handle_size e = max 6 (py_int (HANDLE_SIZE * zoom e))"

definition rect_handle_positions ::
  "real \<Rightarrow> real \<Rightarrow> real \<Rightarrow> real \<Rightarrow> (real \<times> real \<times> string) list" where
  "rect_handle_positions x0 y0 x1 y1 =
     (let cx = (x0 + x1) / 2; cy = (y0 + y1) / 2
      in [(x0, y0, ''nw''), (cx, y0, ''n''), (x1, y0, ''ne''),
          (x0, cy, ''w''), (x1, cy, ''e''),
          (x0, y1, ''sw''), (cx, y1, ''s''), (x1, y1, ''se'')])"

text \<open>The test every handle uses: the point lies in the square of side \<open>hs\<close> around \<open>(hx, hy)\<close>.\<close>

definition in_handle :: "real \<Rightarrow> real \<Rightarrow> real \<Rightarrow> real \<Rightarrow> real \<Rightarrow> bool" where
  "in_handle hs hx hy px py =
     ((hx - hs / 2 \<le> px \<and> px \<le> hx + hs / 2) \<and> (hy - hs / 2 \<le> py \<and> py \<le> hy + hs / 2))"

definition first_rect_handle ::
  "real \<Rightarrow> real \<Rightarrow> real \<Rightarrow> real \<Rightarrow> real \<Rightarrow> real \<Rightarrow> real \<Rightarrow> string option" where
  "first_rect_handle hs x0 y0 x1 y1 px py =
     map_option (\<lambda>h. snd (snd h))
       (find (\<lambda>h. in_handle hs (fst h) (fst (snd h)) px py) (rect_handle_positions x0 y0 x1 y1))"

definition is_handle_tag :: "string \<Rightarrow> bool" where
  "is_handle_tag h =
     (h = ''nw'' \<or> h = ''n'' \<or> h = ''ne'' \<or> h = ''w'' \<or> h = ''e'' \<or> h = ''sw'' \<or> h = ''s'' \<or> h = ''se'')"

text \<open>\<^verbatim>\<open>_hit_text_handle\<close>: the inner \<open>None\<close> is Python's \<^verbatim>\<open>None\<close> result; it never raises.\<close>

definition hit_text_handle :: "editor \<Rightarrow> item \<Rightarrow> real \<Rightarrow> real \<Rightarrow> string option" where
  "hit_text_handle e it px py =
     (case bbox_canvas it of
        None \<Rightarrow> None
      | Some (x0, y0, x1, y1) \<Rightarrow>
          (let cx = (x0 + x1) / 2;
               ry = y0 - max 18 (py_int (ROTATE_HANDLE_OFFSET * zoom e));
               hs = handle_size e
           in if in_handle hs cx ry px py then Some ''rotate''
              else (case first_rect_handle hs x0 y0 x1 y1 px py of
                      Some tag \<Rightarrow> Some tag
                    | None \<Rightarrow>
                        if (x0 \<le> px \<and> px \<le> x1) \<and> (y0 \<le> py \<and> py \<le> y1) then Some ''inside''
                        else None)))"

definition hit_room_handle :: "editor \<Rightarrow> item \<Rightarrow> real \<Rightarrow> real \<Rightarrow> string option option" where
  "hit_room_handle e it px py = do {
     (ax, ay) \<leftarrow> get_pt it ''a'';
     (bx, by) \<leftarrow> get_pt it ''b'';
     let (x0, y0) = world_to_canvas e (min ax bx) (min ay by);
     let (x1, y1) = world_to_canvas e (max ax bx) (max ay by);
     let hs = handle_size e;
     Some (case first_rect_handle hs x0 y0 x1 y1 px py of
             Some tag \<Rightarrow> Some tag
           | None \<Rightarrow>
               if (x0 \<le> px \<and> px \<le> x1) \<and> (y0 \<le> py \<and> py \<le> y1) then Some ''inside''
               else None)
   }"

definition hit_segment_handle :: "editor \<Rightarrow> item \<Rightarrow> real \<Rightarrow> real \<Rightarrow> string option option" where
  "hit_segment_handle e it px py = do {
     (ax, ay) \<leftarrow> get_pt it ''a'';
     (bx, by) \<leftarrow> get_pt it ''b'';
     let (x1, y1) = world_to_canvas e ax ay;
     let (x2, y2) = world_to_canvas e bx by;
     let hs = handle_size e;
     if in_handle hs x1 y1 px py then Some (Some ''a'')
     else if in_handle hs x2 y2 px py then Some (Some ''b'')
     else do {
       let mx = (x1 + x2) / 2; let my = (y1 + y2) / 2;
       (nx, ny) \<leftarrow> seg_normal x1 y1 x2 y2;
       let off = max 18 (py_int (ROTATE_HANDLE_OFFSET * zoom e));
       let rx = mx + nx * off; let ry = my + ny * off;
       if in_handle hs rx ry px py then Some (Some ''rotate'')
       else do {
         d \<leftarrow> dist_point_to_segment px py x1 y1 x2 y2;
         Some (if d \<le> HIT_TOL then Some ''onseg'' else None)
       }
     }
   }"

text \<open>\<^verbatim>\<open>_item_canvas_bbox\<close> and \<^verbatim>\<open>_group_canvas_bbox\<close>\<close>

definition item_canvas_bbox :: "editor \<Rightarrow> item \<Rightarrow> rect option option" where
  "item_canvas_bbox e it =
     (if kind it = ''room'' then do {
        (ax, ay) \<leftarrow> get_pt it ''a'';
        (bx, by) \<leftarrow> get_pt it ''b'';
        let (x0, y0) = world_to_canvas e (min ax bx) (min ay by);
        let (x1, y1) = world_to_canvas e (max ax bx) (max ay by);
        Some (Some (x0, y0, x1, y1))
      }
      else if segment_kind (kind it) then do {
        (ax, ay) \<leftarrow> get_pt it ''a'';
        (bx, by) \<leftarrow> get_pt it ''b'';
        let p1 = world_to_canvas e ax ay;
        let p2 = world_to_canvas e bx by;
        let (x0, y0, x1, y1) = rect_norm (fst p1) (snd p1) (fst p2) (snd p2);
        let pad = 4;
        Some (Some (x0 - pad, y0 - pad, x1 + pad, y1 + pad))
      }
      else if kind it = ''text'' \<and> bbox_canvas it \<noteq> None then Some (bbox_canvas it)
      else Some None)"

fun group_boxes :: "editor \<Rightarrow> nat list \<Rightarrow> rect list option" where
  "group_boxes e [] = Some []"
| "group_boxes e (r # rs) = do {
     b \<leftarrow> item_canvas_bbox e (heap e r);
     bs \<leftarrow> group_boxes e rs;
     Some (case b of None \<Rightarrow> bs | Some bb \<Rightarrow> bb # bs)
   }"

definition group_canvas_bbox :: "editor \<Rightarrow> rect option option" where
  "group_canvas_bbox e = do {
     boxes \<leftarrow> group_boxes e (selected_items e);
     Some (case boxes of
             [] \<Rightarrow> None
           | b # bs \<Rightarrow>
               Some (fold min (map fst bs) (fst b),
                     fold min (map (\<lambda>c. fst (snd c)) bs) (fst (snd b)),
                     fold max (map (\<lambda>c. fst (snd (snd c))) bs) (fst (snd (snd b))),
                     fold max (map (\<lambda>c. snd (snd (snd c))) bs) (snd (snd (snd b)))))
   }"

text \<open>
  \<^verbatim>\<open>self._clear_selection(); it.selected = True; self.selection = it; self.selected_items = [it]\<close>,
  the selection of one picked item.
\<close>

definition select_single :: "editor \<Rightarrow> nat \<Rightarrow> editor" where
  "select_single e r =
     (let e1 = clear_selection e
      in (set_item e1 r ((heap e1 r)\<lparr>selected := True\<rparr>))
           \<lparr>selection := Some r, selected_items := [r]\<rparr>)"

text \<open>
  The block \<^verbatim>\<open>if self.selection: ...\<close> of \<^verbatim>\<open>_select_or_begin_transform\<close>: the handles
  of the single selection. The inner \<open>None\<close> means that no branch returned.
  \<^verbatim>\<open>mod_state & 0x0001\<close> (Shift) is the parity of the modifier state.
\<close>

definition begin_on_selection :: "editor \<Rightarrow> real \<Rightarrow> real \<Rightarrow> nat \<Rightarrow> editor option option" where
  "begin_on_selection e px py mod_state =
     (case selection e of
        None \<Rightarrow> Some None
      | Some r \<Rightarrow>
          (let it = heap e r in
           if kind it = ''text'' then
             (case hit_text_handle e it px py of
                None \<Rightarrow> Some None
              | Some h \<Rightarrow>
                  if h = ''rotate'' then map_option Some (begin_text_rotate e r px py)
                  else if is_handle_tag h
                    then map_option Some (begin_text_scale e r px py h (odd mod_state))
                  else if h = ''inside'' then map_option Some (begin_move_selected e px py)
                  else Some None)
           else if kind it = ''room'' then do {
             hh \<leftarrow> hit_room_handle e it px py;
             (case hh of
                None \<Rightarrow> Some None
              | Some h \<Rightarrow>
                  if is_handle_tag h then Some (Some (begin_room_resize e r px py h))
                  else if h = ''inside'' then map_option Some (begin_move_selected e px py)
                  else Some None)
           }
           else if segment_kind (kind it) then do {
             hh \<leftarrow> hit_segment_handle e it px py;
             (case hh of
                None \<Rightarrow> Some None
              | Some h \<Rightarrow>
                  if h = ''a'' \<or> h = ''b'' then Some (Some (begin_segment_endpoint e r px py h))
                  else if h = ''rotate'' then map_option Some (begin_segment_rotate e r px py)
                  else if h = ''onseg'' then map_option Some (begin_move_selected e px py)
                  else Some None)
           }
           else Some None))"

text \<open>The block \<^verbatim>\<open># Otherwise pick item\<close> and the end of \<^verbatim>\<open>_select_or_begin_transform\<close>.\<close>

definition pick_item :: "editor \<Rightarrow> real \<Rightarrow> real \<Rightarrow> bool \<Rightarrow> (bool \<times> editor) option" where
  "pick_item e px py allow_marquee = do {
     hit \<leftarrow> hit_test e px py;
     (case hit of
        Some r \<Rightarrow>
          (let e2 = select_single e r; it = heap e2 r in
           if kind it = ''text'' then
             (if hit_text_handle e2 it px py = Some ''inside''
              then do { e3 \<leftarrow> begin_move_selected e2 px py; Some (True, e3) }
              else Some (True, e2))
           else if kind it = ''room'' then do {
             h \<leftarrow> hit_room_handle e2 it px py;
             if h = Some ''inside''
             then do { e3 \<leftarrow> begin_move_selected e2 px py; Some (True, e3) }
             else Some (True, e2)
           }
           else if segment_kind (kind it) then do {
             h \<leftarrow> hit_segment_handle e2 it px py;
             if h = Some ''onseg''
             then do { e3 \<leftarrow> begin_move_selected e2 px py; Some (True, e3) }
             else Some (True, e2)
           }
           else Some (True, e2))
      | None \<Rightarrow> if allow_marquee then Some (False, e) else Some (False, clear_selection e))
   }"

definition select_or_begin_transform ::
  "editor \<Rightarrow> real \<Rightarrow> real \<Rightarrow> nat \<Rightarrow> bool \<Rightarrow> (bool \<times> editor) option" where
  "select_or_begin_transform e px py mod_state allow_marquee = do {
     in_group \<leftarrow>
       (if length (selected_items e) > 1 then do {
          bbox \<leftarrow> group_canvas_bbox e;
          Some (case bbox of Some bb \<Rightarrow> point_in_rect px py bb | None \<Rightarrow> False)
        } else Some False);
     if in_group then do { e' \<leftarrow> begin_move_group e px py; Some (True, e') }
     else do {
       started \<leftarrow> begin_on_selection e px py mod_state;
       (case started of
          Some e' \<Rightarrow> Some (True, e')
        | None \<Rightarrow> pick_item e px py allow_marquee)
     }
   }"

subsection \<open>Marquee selection\<close>

definition marquee_hit :: "editor \<Rightarrow> rect \<Rightarrow> nat \<Rightarrow> bool option" where
  "marquee_hit e rect_px r =
     (let it = heap e r in
      if kind it = ''room'' then do {
        (ax, ay) \<leftarrow> get_pt it ''a'';
        (bx, by) \<leftarrow> get_pt it ''b'';
        let (x0, y0) = world_to_canvas e (min ax bx) (min ay by);
        let (x1, y1) = world_to_canvas e (max ax bx) (max ay by);
        Some (rects_intersect rect_px (x0, y0, x1, y1))
      }
      else if segment_kind (kind it) then do {
        (ax, ay) \<leftarrow> get_pt it ''a'';
        (bx, by) \<leftarrow> get_pt it ''b'';
        Some (seg_intersects_rect (world_to_canvas e ax ay) (world_to_canvas e bx by) rect_px)
      }
      else if kind it = ''text'' then
        (case bbox_canvas it of
           Some bb \<Rightarrow> Some (rects_intersect rect_px bb)
         | None \<Rightarrow> Some False)
      else Some False)"

fun marquee_sels :: "editor \<Rightarrow> rect \<Rightarrow> nat list \<Rightarrow> nat list option" where
  "marquee_sels e rect_px [] = Some []"
| "marquee_sels e rect_px (r # rs) = do {
     h \<leftarrow> marquee_hit e rect_px r;
     rest \<leftarrow> marquee_sels e rect_px rs;
     Some (if h then r # rest else rest)
   }"

definition apply_marquee_selection :: "editor \<Rightarrow> rect \<Rightarrow> editor option" where
  "apply_marquee_selection e rect_px = do {
     sels \<leftarrow> marquee_sels e rect_px (items e);
     let e1 = clear_selection e;
     let e2 = e1\<lparr>heap := fold (\<lambda>r h. h(r := (h r)\<lparr>selected := True\<rparr>)) sels (heap e1)\<rparr>;
     Some (e2\<lparr>selected_items := sels,
              selection := (case sels of [r] \<Rightarrow> Some r | _ \<Rightarrow> None)\<rparr>)
   }"

subsection \<open>Pointer events\<close>

definition on_pan_start :: "editor \<Rightarrow> real \<Rightarrow> real \<Rightarrow> editor" where
  "on_pan_start e px py = e\<lparr>pan_active := True, pan_start := (px, py)\<rparr>"

definition on_pan_drag :: "editor \<Rightarrow> real \<Rightarrow> real \<Rightarrow> editor" where
  "on_pan_drag e px py =
     (if \<not> pan_active e then (if pan_space e then on_pan_start e px py else e)
      else (let dx = px - fst (pan_start e); dy = py - snd (pan_start e)
            in e\<lparr>pan_start := (px, py),
                 origin := (fst (origin e) + dx, snd (origin e) + dy)\<rparr>))"

definition on_pan_end :: "editor \<Rightarrow> editor" where
  "on_pan_end e = e\<lparr>pan_active := False\<rparr>"

text \<open>\<^verbatim>\<open>self.draw_state.clear()\<close>\<close>

definition clear_draw_state :: "editor \<Rightarrow> editor" where
  "clear_draw_state e =
     e\<lparr>ds_start := None, ds_ruler_start := None, ds_marquee := None, ds_transform := None\<rparr>"

definition tool_changed :: "editor \<Rightarrow> string \<Rightarrow> editor" where
  "tool_changed e tool = (clear_draw_state (e\<lparr>active_tool := tool\<rparr>))\<lparr>temp_preview := None\<rparr>"

definition segment_data :: "real \<times> real \<Rightarrow> real \<times> real \<Rightarrow> (string \<rightharpoonup> val)" where
  "segment_data a b = [''a'' \<mapsto> Pt (fst a) (snd a), ''b'' \<mapsto> Pt (fst b) (snd b)]"

definition text_data :: "real \<times> real \<Rightarrow> string \<Rightarrow> (string \<rightharpoonup> val)" where
  "text_data p txt =
     [''p'' \<mapsto> Pt (fst p) (snd p), ''text'' \<mapsto> Str txt, ''angle'' \<mapsto> Num 0,
      ''size'' \<mapsto> Num 18, ''color'' \<mapsto> Str TEXT_COLOR]"

text \<open>
  \<^verbatim>\<open>_on_left_down\<close>. \<open>answer\<close> is what the text prompt returns (\<open>None\<close> when it is
  cancelled); it is only asked for by the text tool.
\<close>

definition on_left_down ::
  "editor \<Rightarrow> real \<Rightarrow> real \<Rightarrow> nat \<Rightarrow> string option \<Rightarrow> editor option" where
  "on_left_down e px py mod_state answer = do {
     (wx, wy) \<leftarrow> pointer_world e px py;
     let tool = active_tool e;
     if pan_active e then Some (on_pan_start e px py)
     else if tool = ''select'' then do {
       (handled, e') \<leftarrow> select_or_begin_transform e px py mod_state True;
       Some (if \<not> handled then e'\<lparr>ds_marquee := Some ((px, py), (px, py))\<rparr> else e')
     }
     else if segment_kind tool then
       (case ds_start e of
          None \<Rightarrow>
            Some (e\<lparr>ds_start := Some (wx, wy),
                    temp_preview := Some (tool, (wx, wy), (wx, wy))\<rparr>)
        | Some a \<Rightarrow>
            (let b = (wx, wy);
                 e1 = (if a \<noteq> b then append_item e (Item tool (segment_data a b)) else e)
             in Some ((clear_draw_state e1)\<lparr>temp_preview := None\<rparr>)))
     else if tool = ''room'' then
       Some (e\<lparr>ds_start := Some (wx, wy),
               temp_preview := Some (''room'', (wx, wy), (wx, wy))\<rparr>)
     else if tool = ''text'' then
       (case answer of
          None \<Rightarrow> Some e
        | Some txt \<Rightarrow>
            if txt \<noteq> [] then Some (append_item e (Item ''text'' (text_data (wx, wy) txt)))
            else Some e)
     else if tool = ''ruler'' then
       (case ds_ruler_start e of
          None \<Rightarrow>
            (let e1 = (if \<not> keep_rulers e \<and> rulers e \<noteq> [] then e\<lparr>rulers := []\<rparr> else e)
             in Some (e1\<lparr>ds_ruler_start := Some (wx, wy),
                        temp_preview := Some (''ruler'', (wx, wy), (wx, wy))\<rparr>))
        | Some a \<Rightarrow>
            (let b = (wx, wy);
                 e1 = (if a \<noteq> b
                       then (let e0 = (if \<not> keep_rulers e then e\<lparr>rulers := []\<rparr> else e)
                             in e0\<lparr>rulers := rulers e0 @ [(a, b)]\<rparr>)
                       else e)
             in Some (e1\<lparr>ds_ruler_start := None, temp_preview := None\<rparr>)))
     else if tool = ''eraser'' then erase_at e px py
     else Some e
   }"

definition on_left_drag :: "editor \<Rightarrow> real \<Rightarrow> real \<Rightarrow> editor option" where
  "on_left_drag e px py = do {
     (wx, wy) \<leftarrow> pointer_world e px py;
     let tool = active_tool e;
     if pan_active e then Some (on_pan_drag e px py)
     else if segment_kind tool \<or> tool = ''room'' then
       (case ds_start e of
          Some a \<Rightarrow> Some (e\<lparr>temp_preview := Some (tool, a, (wx, wy))\<rparr>)
        | None \<Rightarrow> Some e)
     else if tool = ''select'' then
       (case ds_marquee e of
          Some (st, cur) \<Rightarrow> Some (e\<lparr>ds_marquee := Some (st, (px, py))\<rparr>)
        | None \<Rightarrow> continue_transform e px py)
     else if tool = ''ruler'' then
       (case ds_ruler_start e of
          Some a \<Rightarrow> Some (e\<lparr>temp_preview := Some (''ruler'', a, (wx, wy))\<rparr>)
        | None \<Rightarrow> Some e)
     else Some e
   }"

definition on_left_up :: "editor \<Rightarrow> real \<Rightarrow> real \<Rightarrow> editor option" where
  "on_left_up e px py =
     (if active_tool e = ''room'' \<and> ds_start e \<noteq> None then do {
        (wx, wy) \<leftarrow> pointer_world e px py;
        a \<leftarrow> ds_start e;
        let b = (wx, wy);
        let e1 = (if a \<noteq> b then append_item e (Item ''room'' (segment_data a b)) else e);
        Some ((clear_draw_state e1)\<lparr>temp_preview := None\<rparr>)
      }
      else if active_tool e = ''select'' then
        (case ds_marquee e of
           Some ((x0, y0), (x1, y1)) \<Rightarrow> do {
             e' \<leftarrow> apply_marquee_selection e (rect_norm x0 y0 x1 y1);
             Some (e'\<lparr>ds_marquee := None\<rparr>)
           }
         | None \<Rightarrow> Some (e\<lparr>ds_transform := None\<rparr>))
      else Some e)"

text \<open>\<^verbatim>\<open>dict.setdefault\<close>\<close>

definition setdefault :: "item \<Rightarrow> string \<Rightarrow> val \<Rightarrow> item" where
  "setdefault it k v = (case data it k of None \<Rightarrow> set_data it k v | Some _ \<Rightarrow> it)"

text \<open>
  \<^verbatim>\<open>_on_right_click\<close>, up to the menu it pops up; the menu's commands are
  \<^verbatim>\<open>_toggle_measure\<close>, \<^verbatim>\<open>_toggle_area\<close>, \<^verbatim>\<open>_delete_item\<close> and \<^verbatim>\<open>_clear_rulers\<close>.
\<close>

definition on_right_click :: "editor \<Rightarrow> real \<Rightarrow> real \<Rightarrow> editor option" where
  "on_right_click e px py = do {
     hit \<leftarrow> hit_test e px py;
     (case hit of
        None \<Rightarrow> Some e
      | Some r \<Rightarrow>
          (let e1 = select_single e r; it = heap e1 r in
           if kind it = ''room'' \<or> segment_kind (kind it) then
             (let it1 = setdefault it ''measure'' (Flag False);
                  it2 = (if kind it = ''room'' then setdefault it1 ''show_area'' (Flag True)
                         else it1)
              in Some (set_item e1 r it2))
           else Some e1))
   }"

subsection \<open>Documents\<close>

text \<open>
  The parsed JSON document \<^verbatim>\<open>load_json\<close> reads: each entry of \<^verbatim>\<open>"items"\<close> with its
  \<^verbatim>\<open>"kind"\<close> and \<^verbatim>\<open>"data"\<close>, the optional \<^verbatim>\<open>meta.meters_per_grid\<close>, and the rulers.
\<close>

record document =
  doc_meters_per_grid :: "real option"
  doc_items :: "(string \<times> (string \<rightharpoonup> val)) list"
  doc_rulers :: "((real \<times> real) \<times> (real \<times> real)) list"

text \<open>The defaults \<^verbatim>\<open>load_json\<close> gives a text item.\<close>

definition text_defaults :: "item \<Rightarrow> item" where
  "text_defaults it =
     (if kind it = ''text''
      then setdefault (setdefault (setdefault it ''angle'' (Num 0)) ''size'' (Num 18))
             ''color'' (Str TEXT_COLOR)
      else it)"

definition load_json :: "editor \<Rightarrow> document \<Rightarrow> editor" where
  "load_json e doc =
     (let e1 = fold (\<lambda>obj s. append_item s (Item (fst obj) (snd obj))) (doc_items doc)
                 (e\<lparr>items := []\<rparr>);
          e2 = e1\<lparr>grid_m := (case doc_meters_per_grid doc of Some g \<Rightarrow> g | None \<Rightarrow> GRID_METERS),
                  rulers := doc_rulers doc\<rparr>;
          e3 = e2\<lparr>heap := fold (\<lambda>r h. h(r := text_defaults (h r))) (items e2) (heap e2)\<rparr>
      in clear_selection e3)"

definition new_file :: "editor \<Rightarrow> bool \<Rightarrow> editor" where
  "new_file e confirmed =
     (if confirmed
      then (clear_draw_state (e\<lparr>items := [], selection := None, selected_items := [],
                               rulers := []\<rparr>))\<lparr>temp_preview := None\<rparr>
      else e)"

subsection \<open>Zoom\<close>

text \<open>\<^verbatim>\<open>_zoom\<close>; \<open>w\<close> and \<open>h\<close> are the canvas width and height Tk reports.\<close>

definition zoom_by :: "editor \<Rightarrow> real \<Rightarrow> real \<Rightarrow> real \<Rightarrow> editor option" where
  "zoom_by e factor w h =
     (let new_zoom = clamp (zoom e * factor) MIN_ZOOM MAX_ZOOM in
      if new_zoom = zoom e then Some e
      else do {
        let cx = w / 2; let cy = h / 2;
        (wx, wy) \<leftarrow> canvas_to_world e cx cy;
        let e1 = e\<lparr>zoom := new_zoom\<rparr>;
        let (cx2, cy2) = world_to_canvas e1 wx wy;
        Some (e1\<lparr>origin := (fst (origin e1) + (cx - cx2), snd (origin e1) + (cy - cy2))\<rparr>)
      })"

definition reset_view :: "editor \<Rightarrow> editor" where
  "reset_view e = e\<lparr>zoom := 1, origin := (80, 80)\<rparr>"

subsection \<open>Vocabulary of the properties\<close>

definition unit_vector :: "real \<times> real \<Rightarrow> bool" where
  "unit_vector n = (hypot (fst n) (snd n) = 1)"

text \<open>
  The rotation as the specification words it: the midpoint plus and minus half the
  length along the direction at the initial direction angle plus the cursor's angle
  delta (in degrees).
\<close>

definition spec_rotate_endpoints ::
  "real \<times> real \<Rightarrow> real \<times> real \<Rightarrow> real \<Rightarrow> (real \<times> real) \<times> (real \<times> real)" where
  "spec_rotate_endpoints a b delta =
     (let cx = (fst a + fst b) / 2; cy = (snd a + snd b) / 2;
          len = hypot (fst b - fst a) (snd b - snd a);
          phi = radians (degrees (atan2 (snd b - snd a) (fst b - fst a)) + delta)
      in ((cx - (len / 2) * cos phi, cy - (len / 2) * sin phi),
          (cx + (len / 2) * cos phi, cy + (len / 2) * sin phi)))"

text \<open>
  The text scale as the specification words it: per axis, the cursor's distance from
  the box centre over the initial half-extent; the size is the clamped product.
\<close>

definition spec_scale_ratio :: "string \<Rightarrow> bool \<Rightarrow> rect \<Rightarrow> real \<Rightarrow> real \<Rightarrow> real" where
  "spec_scale_ratio handle_tag keep_ratio bb px py =
     (case bb of (x0, y0, x1, y1) \<Rightarrow>
        (let cx = (x0 + x1) / 2; cy = (y0 + y1) / 2;
             rx = \<bar>px - cx\<bar> / \<bar>x1 - cx\<bar>;
             ry = \<bar>py - cy\<bar> / \<bar>y1 - cy\<bar>
         in if handle_tag = ''n'' \<or> handle_tag = ''s'' then ry
            else if handle_tag = ''e'' \<or> handle_tag = ''w'' then rx
            else if keep_ratio then max rx ry else (rx + ry) / 2))"

definition spec_scaled_size :: "real \<Rightarrow> real \<Rightarrow> real" where
  "spec_scaled_size start_size ratio = clamp (start_size * clamp ratio (2 / 10) 8) 8 512"

text \<open>
  The same two, amended: everything is computed in doubles (each operation rounded by
  \<open>fl\<close>), a half-extent below one pixel counts as one pixel, and the scaled size, a
  double, is truncated to an integer before it is clamped.
\<close>

definition guarded_scale_ratio :: "string \<Rightarrow> bool \<Rightarrow> rect \<Rightarrow> real \<Rightarrow> real \<Rightarrow> real" where
  "guarded_scale_ratio handle_tag keep_ratio bb px py =
     (case bb of (x0, y0, x1, y1) \<Rightarrow>
        (let cx = fl (x0 + x1) / 2; cy = fl (y0 + y1) / 2;
             rx = fl (\<bar>fl (px - cx)\<bar> / max 1 (fl (x1 - cx)));
             ry = fl (\<bar>fl (py - cy)\<bar> / max 1 (fl (y1 - cy)))
         in if handle_tag = ''n'' \<or> handle_tag = ''s'' then ry
            else if handle_tag = ''e'' \<or> handle_tag = ''w'' then rx
            else if keep_ratio then max rx ry else fl (rx + ry) / 2))"

definition truncated_scaled_size :: "real \<Rightarrow> real \<Rightarrow> real" where
  "truncated_scaled_size start_size ratio =
     clamp (py_int (fl (fl start_size * clamp ratio (fl (2 / 10)) 8))) 8 512"




text \<open>
  The scene invariant: no reference occurs twice in the scene or in the
  multi-selection, and every reference of the scene has been allocated.
\<close>

definition scene_inv :: "editor \<Rightarrow> bool" where
  "scene_inv e =
     (distinct (items e) \<and> distinct (selected_items e) \<and>
      list_all (\<lambda>r. r < next_ref e) (items e))"

text \<open>The two editors have the same scene list, selection, allocation mark and zoom.\<close>

definition same_lists :: "editor \<Rightarrow> editor \<Rightarrow> bool" where
  "same_lists e e' =
     (items e' = items e \<and> next_ref e' = next_ref e \<and>
      selected_items e' = selected_items e \<and> selection e' = selection e \<and>
      zoom e' = zoom e)"

text \<open>
  The second editor has the scene list, the allocation mark and the zoom of the first,
  and a multi-selection without repetition if the first has one.
\<close>

definition same_scene :: "editor \<Rightarrow> editor \<Rightarrow> bool" where
  "same_scene e e' =
     (items e' = items e \<and> next_ref e' = next_ref e \<and> zoom e' = zoom e \<and>
      (distinct (selected_items e) \<longrightarrow> distinct (selected_items e')))"

text \<open>
  The second editor is the first with the item \<open>it\<close> appended to the scene under a new
  reference.
\<close>

definition appended :: "editor \<Rightarrow> editor \<Rightarrow> item \<Rightarrow> bool" where
  "appended e e' it =
     (items e' = items e @ [next_ref e] \<and> next_ref e' = Suc (next_ref e) \<and>
      heap e' = (heap e)(next_ref e := it) \<and> selected_items e' = selected_items e \<and>
      zoom e' = zoom e)"

text \<open>The two stored points of a wall, door, window or room are present and differ.\<close>

definition points_differ :: "item \<Rightarrow> bool" where
  "points_differ it =
     (case (get_pt it ''a'', get_pt it ''b'') of
        (Some a, Some b) \<Rightarrow> a \<noteq> b
      | _ \<Rightarrow> False)"

text \<open>The rectangle of a room has a width and a height other than zero.\<close>

definition nonzero_area :: "item \<Rightarrow> bool" where
  "nonzero_area it =
     (case (get_pt it ''a'', get_pt it ''b'') of
        (Some a, Some b) \<Rightarrow> fst a \<noteq> fst b \<and> snd a \<noteq> snd b
      | _ \<Rightarrow> False)"

text \<open>
  The states the editor can reach from its start through its handlers, each taken as
  completing. The last rule stands for what changes nothing but the items' own fields:
  \<^verbatim>\<open>_redraw\<close> and its render caches, \<^verbatim>\<open>_toggle_measure\<close>, \<^verbatim>\<open>_toggle_area\<close>, and
  \<^verbatim>\<open>export_png\<close>, which puts back the selection it saved.
\<close>

inductive reachable :: "editor \<Rightarrow> bool" where
  start: "reachable init_editor"
| left_down: "reachable e \<Longrightarrow> on_left_down e px py m ans = Some e' \<Longrightarrow> reachable e'"
| left_drag: "reachable e \<Longrightarrow> on_left_drag e px py = Some e' \<Longrightarrow> reachable e'"
| left_up: "reachable e \<Longrightarrow> on_left_up e px py = Some e' \<Longrightarrow> reachable e'"
| right_click: "reachable e \<Longrightarrow> on_right_click e px py = Some e' \<Longrightarrow> reachable e'"
| menu_delete: "reachable e \<Longrightarrow> reachable (delete_item e r)"
| key_delete: "reachable e \<Longrightarrow> reachable (delete_selection e)"
| tool: "reachable e \<Longrightarrow> reachable (tool_changed e t)"
| zoomed: "reachable e \<Longrightarrow> zoom_by e f w h = Some e' \<Longrightarrow> reachable e'"
| view_reset: "reachable e \<Longrightarrow> reachable (reset_view e)"
| pan_pressed: "reachable e \<Longrightarrow> reachable (on_pan_start e px py)"
| pan_dragged: "reachable e \<Longrightarrow> reachable (on_pan_drag e px py)"
| pan_released: "reachable e \<Longrightarrow> reachable (on_pan_end e)"
| options: "reachable e \<Longrightarrow>
     reachable (e\<lparr>snap_enabled := s, keep_rulers := k, grid_m := g, pan_space := p\<rparr>)"
| loaded: "reachable e \<Longrightarrow> reachable (load_json e doc)"
| renewed: "reachable e \<Longrightarrow> reachable (new_file e c)"
| fields: "reachable e \<Longrightarrow> reachable (e\<lparr>heap := h\<rparr>)"










subsection \<open>Example states\<close>

text \<open>A document with one item of a kind the editor does not know.\<close>

definition sofa_document :: document where
  "sofa_document =
     \<lparr>doc_meters_per_grid = None, doc_items = [(''sofa'', [''a'' \<mapsto> Pt 1 2])],
      doc_rulers = []\<rparr>"

text \<open>A wall from (0, 0) to (0, 5), with snapping switched off.\<close>

definition vertical_wall_editor :: editor where
  "vertical_wall_editor =
     append_item (init_editor\<lparr>snap_enabled := False\<rparr>)
       (Item ''wall'' (segment_data (0, 0) (0, 5)))"


text \<open>A selected label at the world origin, rendered 100 by 40 pixels.\<close>

definition label_item :: item where
  "label_item =
     (Item ''text'' (text_data (0, 0) ''Hall''))\<lparr>bbox_canvas := Some (30, 60, 130, 100)\<rparr>"

definition label_editor :: editor where
  "label_editor =
     (append_item init_editor label_item)\<lparr>selection := Some 0, selected_items := [0]\<rparr>"

text \<open>The same label, its east handle grabbed for scaling.\<close>

definition label_scale_editor :: editor where
  "label_scale_editor =
     label_editor\<lparr>ds_transform :=
       Some (ScaleText 0 ''e'' False (30, 60, 130, 100) (Num 18))\<rparr>"


text \<open>The editor at start, switched to the room tool.\<close>

definition room_tool_editor :: editor where
  "room_tool_editor = tool_changed init_editor ''room''"

text \<open>The editor with the wall tool, after a first click at the world origin.\<close>

definition wall_started_editor :: editor where
  "wall_started_editor =
     (tool_changed init_editor ''wall'')\<lparr>ds_start := Some (0, 0),
        temp_preview := Some (''wall'', (0, 0), (0, 0))\<rparr>"

text \<open>Three walls, all in the multi-selection.\<close>

definition three_walls_editor :: editor where
  "three_walls_editor =
     (append_item
        (append_item
           (append_item init_editor (Item ''wall'' (segment_data (0, 0) (5, 0))))
           (Item ''wall'' (segment_data (0, 1) (5, 1))))
        (Item ''wall'' (segment_data (0, 2) (5, 2))))\<lparr>selected_items := [0, 1, 2]\<rparr>"



text \<open>
  A label of size 100 rendered 200 by 40 pixels around the canvas point (100, 20), its
  east handle grabbed for scaling.
\<close>

definition wide_label_editor :: editor where
  "wide_label_editor =
     (append_item init_editor
        ((Item ''text'' ((text_data (5 / 8, - (15 / 8)) ''Hall'')(''size'' \<mapsto> Num 100)))
           \<lparr>bbox_canvas := Some (0, 0, 200, 40)\<rparr>))
     \<lparr>selection := Some 0, selected_items := [0],
      ds_transform := Some (ScaleText 0 ''e'' False (0, 0, 200, 40) (Num 100))\<rparr>"


section \<open>Properties\<close>

subsection \<open>Rounding to a double\<close>

lemma fl_binade:
  assumes "2 powr of_int k \<le> \<bar>x\<bar>" and "\<bar>x\<bar> < 2 powr (of_int k + 1)"
  shows "fl x = py_round (x / 2 powr (of_int k - 52)) * 2 powr (of_int k - 52)"
proof -
  have pos: "0 < \<bar>x\<bar>" using assms(1) by (smt (verit) powr_gt_zero)
  then have "\<lfloor>log 2 \<bar>x\<bar>\<rfloor> = k"
    using assms by (simp add: floor_log_eq_powr_iff)
  with pos show ?thesis by (simp add: fl_def Let_def)
qed






lemma fl_binade_ge1:
  assumes "n \<le> 52" and "2 ^ n \<le> \<bar>x\<bar>" and "\<bar>x\<bar> < 2 * 2 ^ n"
  shows "fl x = py_round (x * 2 ^ (52 - n)) / 2 ^ (52 - n)"
proof -
  have a: "(2::real) powr of_int (int n) = 2 ^ n" by (simp add: powr_realpow)
  have b: "(2::real) powr (of_int (int n) + 1) = 2 * 2 ^ n"
    by (simp add: powr_add powr_realpow)
  have "(2::real) powr (- real (52 - n)) = 1 / 2 ^ (52 - n)"
    by (simp add: powr_minus_divide powr_realpow del: of_nat_diff)
  moreover have "of_int (int n) - 52 = - real (52 - n)" using assms(1) by simp
  ultimately have c: "(2::real) powr (of_int (int n) - 52) = 1 / 2 ^ (52 - n)"
    by (simp only:)
  from fl_binade [of "int n" x] assms(2,3) show ?thesis
    unfolding a b c by simp
qed

lemma fl_binade_lt1:
  assumes "1 / 2 ^ n \<le> \<bar>x\<bar>" and "\<bar>x\<bar> < 2 / 2 ^ n"
  shows "fl x = py_round (x * 2 ^ (52 + n)) / 2 ^ (52 + n)"
proof -
  have a: "(2::real) powr of_int (- int n) = 1 / 2 ^ n"
    by (simp add: powr_minus powr_realpow inverse_eq_divide)
  have "(2::real) powr (1 - real n) = 2 powr 1 / 2 powr real n" by (rule powr_diff)
  then have b: "(2::real) powr (of_int (- int n) + 1) = 2 / 2 ^ n"
    by (simp add: powr_realpow)
  have "(2::real) powr (- real (52 + n)) = 1 / 2 ^ (52 + n)"
    by (simp add: powr_minus_divide powr_realpow del: of_nat_add)
  moreover have "of_int (- int n) - 52 = - real (52 + n)" by simp
  ultimately have c: "(2::real) powr (of_int (- int n) - 52) = 1 / 2 ^ (52 + n)"
    by (simp only:)
  from fl_binade [of "- int n" x] assms show ?thesis
    unfolding a b c by simp
qed

text \<open>The doubles the examples below meet.\<close>

lemma fl_small_integers:
  "fl 18 = 18" "fl 20 = 20" "fl 29 = 29" "fl 50 = 50" "fl 54 = 54" "fl 100 = 100"
  "fl 160 = 160" "fl 200 = 200"
  using fl_binade_ge1 [of 4 18] fl_binade_ge1 [of 4 20] fl_binade_ge1 [of 4 29]
    fl_binade_ge1 [of 5 50] fl_binade_ge1 [of 5 54] fl_binade_ge1 [of 6 100]
    fl_binade_ge1 [of 7 160] fl_binade_ge1 [of 7 200]
  by (simp_all add: py_round_def Let_def)

lemma fl_fifth: "fl (2 / 10) = 3602879701896397 / 18014398509481984"
  using fl_binade_lt1 [of 3 "2 / 10"]
  by (simp add: py_round_def Let_def)

lemma fl_27_25: "fl (27 / 25) = 607985949695017 / 562949953421312"
  using fl_binade_ge1 [of 0 "27 / 25"]
  by (simp add: py_round_def Let_def)

lemma fl_18_times: "fl (18 * (607985949695017 / 562949953421312))
                    = 5471873547255153 / 281474976710656"
  using fl_binade_ge1 [of 4 "18 * (607985949695017 / 562949953421312)"]
  by (simp add: py_round_def Let_def)

lemma fl_29_100: "fl (29 / 100) = 5224175567749775 / 18014398509481984"
  using fl_binade_lt1 [of 2 "29 / 100"]
  by (simp add: py_round_def Let_def)

lemma fl_100_times: "fl (100 * (5224175567749775 / 18014398509481984))
                     = 8162774324609023 / 281474976710656"
  using fl_binade_ge1 [of 4 "100 * (5224175567749775 / 18014398509481984)"]
  by (simp add: py_round_def Let_def)



subsection \<open>Coordinate round trip\<close>

lemma grid_px_nonzero: "MIN_ZOOM \<le> zoom e \<Longrightarrow> grid_px e \<noteq> 0"
  by (simp add: grid_px_def GRID_SIZE_PX_def MIN_ZOOM_def)

text \<open>
  C8. For every world point, every zoom in [0.4, 2.5] and every origin, mapping the point
  to the canvas and back gives the point again, exactly (in real arithmetic).
\<close>

theorem canvas_world_roundtrip:
  assumes "MIN_ZOOM \<le> zoom e" and "zoom e \<le> MAX_ZOOM"
  shows "canvas_to_world e (fst (world_to_canvas e x y)) (snd (world_to_canvas e x y))
         = Some (x, y)"
  using grid_px_nonzero [OF assms(1)]
  by (simp add: canvas_to_world_def world_to_canvas_def py_div_def)

theorem canvas_world_roundtrip_witness:
  "MIN_ZOOM \<le> zoom init_editor \<and> zoom init_editor \<le> MAX_ZOOM \<and>
   canvas_to_world init_editor (fst (world_to_canvas init_editor 3 4))
     (snd (world_to_canvas init_editor 3 4)) = Some (3, 4)"
proof -
  have lo: "MIN_ZOOM \<le> zoom init_editor"
    by (simp add: init_editor_def MIN_ZOOM_def)
  have hi: "zoom init_editor \<le> MAX_ZOOM"
    by (simp add: init_editor_def MAX_ZOOM_def)
  from lo hi canvas_world_roundtrip [OF lo hi, of 3 4] show ?thesis by simp
qed

subsection \<open>Moving an item of an unknown kind\<close>

lemma load_sofa_kind: "kind (heap (load_json init_editor sofa_document) 0) = ''sofa''"
  by (simp add: load_json_def sofa_document_def init_editor_def append_item_def Item_def
      clear_selection_def text_defaults_def Let_def)

lemma load_sofa_items: "items (load_json init_editor sofa_document) = [0]"
  by (simp add: load_json_def sofa_document_def init_editor_def append_item_def
      clear_selection_def Let_def)

text \<open>
  C10. For an item whose kind is none of wall, door, window, room and text,
  \<^verbatim>\<open>_move_item\<close> is a no-op: it completes and leaves the whole editor, so the item's data
  and every other item, as it was.
\<close>

theorem move_item_unknown_kind_noop:
  assumes "kind (heap e r) \<notin> {''wall'', ''door'', ''window'', ''room'', ''text''}"
  shows "move_item e r dx dy = Some e"
  using assms by (simp add: move_item_def segment_kind_def Let_def)

theorem move_item_unknown_kind_noop_witness:
  "items (load_json init_editor sofa_document) = [0] \<and>
   kind (heap (load_json init_editor sofa_document) 0) = ''sofa'' \<and>
   move_item (load_json init_editor sofa_document) 0 3 4
     = Some (load_json init_editor sofa_document)"
proof -
  have "kind (heap (load_json init_editor sofa_document) 0)
        \<notin> {''wall'', ''door'', ''window'', ''room'', ''text''}"
    by (simp add: load_sofa_kind)
  from move_item_unknown_kind_noop [OF this, of 3 4] show ?thesis
    by (simp add: load_sofa_kind load_sofa_items)
qed

subsection \<open>Rotating a segment\<close>

lemma screen_angle_west: "screen_angle 80 160 52 160 = 180"
  by (simp add: screen_angle_def atan2_def degrees_def)

lemma screen_angle_north: "screen_angle 80 160 80 132 = 90"
  by (simp add: screen_angle_def atan2_def degrees_def)

lemma begin_rotate_vertical_wall:
  "begin_segment_rotate vertical_wall_editor 0 52 160 =
     Some (vertical_wall_editor\<lparr>ds_transform := Some (SegRotate 0 (0, 5 / 2) 5 180)\<rparr>)"
  by (simp add: begin_segment_rotate_def vertical_wall_editor_def append_item_def
      init_editor_def Item_def segment_data_def get_pt_def world_to_canvas_def grid_px_def
      GRID_SIZE_PX_def screen_angle_west hypot_def)

lemma rotate_points_vertical_wall:
  "segment_rotate_points
     (vertical_wall_editor\<lparr>ds_transform := Some (SegRotate 0 (0, 5 / 2) 5 180)\<rparr>)
     (0, 5 / 2) 5 180 80 132 = ((0, 5), (0, 0))"
  by (simp add: segment_rotate_points_def vertical_wall_editor_def append_item_def
      init_editor_def world_to_canvas_def grid_px_def GRID_SIZE_PX_def screen_angle_north
      radians_def Let_def)

text \<open>
  C1. A rotate update should put the endpoints at the midpoint plus and minus half the
  length along the initial direction turned by the cursor's angle delta. The code turns
  the direction of angle 0 instead: the vertical wall from (0, 0) to (0, 5), grabbed at
  its rotate handle (52, 160) and dragged a quarter turn to (80, 132), ends as the
  vertical segment from (0, 5) to (0, 0), where the specified rotation gives the
  horizontal segment from (-2.5, 2.5) to (2.5, 2.5).
\<close>

theorem segment_rotate_drops_initial_direction:
  "(do { e1 \<leftarrow> begin_segment_rotate vertical_wall_editor 0 52 160;
         e2 \<leftarrow> update_segment_rotate e1 80 132;
         Some (get_pt (heap e2 0) ''a'', get_pt (heap e2 0) ''b'') })
     = Some (Some (0, 5), Some (0, 0)) \<and>
   spec_rotate_endpoints (0, 0) (0, 5) (screen_angle 80 160 80 132 - screen_angle 80 160 52 160)
     = ((- (5 / 2), 5 / 2), (5 / 2, 5 / 2))"
proof -
  have "update_segment_rotate
          (vertical_wall_editor\<lparr>ds_transform := Some (SegRotate 0 (0, 5 / 2) 5 180)\<rparr>) 80 132
        = Some (set_item
            (vertical_wall_editor\<lparr>ds_transform := Some (SegRotate 0 (0, 5 / 2) 5 180)\<rparr>) 0
            (set_data (set_data (heap vertical_wall_editor 0) ''a'' (Pt 0 5)) ''b'' (Pt 0 0)))"
    by (simp add: update_segment_rotate_def rotate_points_vertical_wall)
       (simp add: vertical_wall_editor_def append_item_def init_editor_def)
  then have run: "(do { e1 \<leftarrow> begin_segment_rotate vertical_wall_editor 0 52 160;
         e2 \<leftarrow> update_segment_rotate e1 80 132;
         Some (get_pt (heap e2 0) ''a'', get_pt (heap e2 0) ''b'') })
     = Some (Some (0, 5), Some (0, 0))"
    by (simp add: begin_rotate_vertical_wall set_item_def set_data_def get_pt_def)
  have spec: "spec_rotate_endpoints (0, 0) (0, 5)
                (screen_angle 80 160 80 132 - screen_angle 80 160 52 160)
              = ((- (5 / 2), 5 / 2), (5 / 2, 5 / 2))"
    by (simp add: spec_rotate_endpoints_def screen_angle_north screen_angle_west atan2_def
        degrees_def radians_def hypot_def Let_def)
  from run spec show ?thesis by simp
qed

subsection \<open>Zero-length segments\<close>



text \<open>A segment that is not a point gets a unit normal.\<close>

lemma seg_normal_unit:
  assumes "(x1, y1) \<noteq> (x2, y2)"
  shows "\<exists>n. seg_normal x1 y1 x2 y2 = Some n \<and> unit_vector n"
proof -
  define nx ny where "nx = x2 - x1" and "ny = y2 - y1"
  have nz: "nx \<noteq> 0 \<or> ny \<noteq> 0" using assms by (auto simp: nx_def ny_def)
  then have pos: "0 < nx * nx + ny * ny"
    by (metis not_sum_squares_lt_zero linorder_neqE_linordered_idom sum_squares_eq_zero_iff)
  from nz have L: "hypot nx ny \<noteq> 0" by (simp add: hypot_def)
  define h where "h = hypot nx ny"
  have hh: "h * h = nx * nx + ny * ny" using pos by (simp add: h_def hypot_def)
  have hz: "h \<noteq> 0" using L by (simp add: h_def)
  have "(- ny / h) * (- ny / h) + (nx / h) * (nx / h) = (nx * nx + ny * ny) / (h * h)"
    by (simp add: add_divide_distrib)
  also have "\<dots> = 1" using hz by (simp add: hh [symmetric])
  finally have "sqrt ((- ny / h) * (- ny / h) + (nx / h) * (nx / h)) = 1" by simp
  then have "hypot (- ny / hypot nx ny) (nx / hypot nx ny) = 1"
    unfolding h_def hypot_def [of "- ny / sqrt (nx * nx + ny * ny)"] hypot_def [of nx ny] .
  then show ?thesis using L
    by (simp add: seg_normal_def py_div_def unit_vector_def Let_def nx_def ny_def)
qed









subsection \<open>Scaling a text\<close>

text \<open>
  For an edge handle, when the centre, the cursor's distance and the half-extent are
  doubles as they stand and the half-extent is at least one pixel, the ratio of the code
  is the stated ratio rounded to a double.
\<close>

lemma guarded_is_rounded_spec_x:
  assumes "h = ''e'' \<or> h = ''w''"
      and "fl (x0 + x1) = x0 + x1"
      and "fl (px - (x0 + x1) / 2) = px - (x0 + x1) / 2"
      and "fl (x1 - (x0 + x1) / 2) = x1 - (x0 + x1) / 2"
      and "1 \<le> x1 - (x0 + x1) / 2"
  shows "guarded_scale_ratio h k (x0, y0, x1, y1) px py
         = fl (spec_scale_ratio h k (x0, y0, x1, y1) px py)"
proof -
  have "max 1 (x1 - (x0 + x1) / 2) = \<bar>x1 - (x0 + x1) / 2\<bar>"
    using assms(5) by linarith
  then show ?thesis
    using assms(1)
    by (auto simp add: guarded_scale_ratio_def spec_scale_ratio_def Let_def assms(2,3,4))
qed

lemma guarded_is_rounded_spec_y:
  assumes "h = ''n'' \<or> h = ''s''"
      and "fl (y0 + y1) = y0 + y1"
      and "fl (py - (y0 + y1) / 2) = py - (y0 + y1) / 2"
      and "fl (y1 - (y0 + y1) / 2) = y1 - (y0 + y1) / 2"
      and "1 \<le> y1 - (y0 + y1) / 2"
  shows "guarded_scale_ratio h k (x0, y0, x1, y1) px py
         = fl (spec_scale_ratio h k (x0, y0, x1, y1) px py)"
proof -
  have "max 1 (y1 - (y0 + y1) / 2) = \<bar>y1 - (y0 + y1) / 2\<bar>"
    using assms(5) by linarith
  then show ?thesis
    using assms(1)
    by (auto simp add: guarded_scale_ratio_def spec_scale_ratio_def Let_def assms(2,3,4))
qed

lemma text_scale_factor_guarded:
  "text_scale_factor h k bb px py = guarded_scale_ratio h k bb px py"
  by (simp add: text_scale_factor_def guarded_scale_ratio_def)

lemma update_text_scale_result:
  assumes "ds_transform e = Some (ScaleText r h k bb (Num s0))"
      and "data (heap e r) ''size'' = Some cur"
  shows "\<exists>e'. update_text_scale e px py = Some e' \<and>
           get_num (heap e' r) ''size''
             = Some (truncated_scaled_size s0 (text_scale_factor h k bb px py))"
  using assms
  by (auto simp add: update_text_scale_def Let_def truncated_scaled_size_def set_item_def
      set_data_def get_num_def)

lemma begin_scale_label:
  "begin_text_scale label_editor 0 130 80 ''e'' False = Some label_scale_editor"
  by (simp add: begin_text_scale_def label_scale_editor_def label_editor_def label_item_def
      append_item_def init_editor_def Item_def text_data_def)

lemma label_scale_session:
  "ds_transform label_scale_editor
   = Some (ScaleText 0 ''e'' False (30, 60, 130, 100) (Num 18))"
  by (simp add: label_scale_editor_def)

lemma label_scale_size: "data (heap label_scale_editor 0) ''size'' = Some (Num 18)"
  by (simp add: label_scale_editor_def label_editor_def label_item_def append_item_def
      init_editor_def Item_def text_data_def)

lemma label_ratio:
  "guarded_scale_ratio ''e'' False (30, 60, 130, 100) 134 80
   = 607985949695017 / 562949953421312"
  by (simp add: guarded_scale_ratio_def Let_def fl_small_integers fl_27_25)

lemma label_size: "truncated_scaled_size 18 (607985949695017 / 562949953421312) = 19"
proof -
  have "clamp (607985949695017 / 562949953421312) (fl (2 / 10)) 8
        = 607985949695017 / 562949953421312"
    unfolding fl_fifth by (simp add: clamp_def)
  then have "truncated_scaled_size 18 (607985949695017 / 562949953421312)
             = clamp (py_int (fl (18 * (607985949695017 / 562949953421312)))) 8 512"
    unfolding truncated_scaled_size_def by (simp only: fl_small_integers)
  also have "\<dots> = 19"
    unfolding fl_18_times by (simp add: clamp_def py_int_def)
  finally show ?thesis .
qed

lemma label_spec_ratio: "spec_scale_ratio ''e'' False (30, 60, 130, 100) 134 80 = 27 / 25"
  by (simp add: spec_scale_ratio_def Let_def)

text \<open>
  C5, as stated, fails: a label of size 18 whose east handle is dragged from (130, 80) to
  (134, 80) gets the ratio 54 / 50 and the size 19, not 18 * 1.08 = 19.44.
\<close>

theorem text_scale_truncates:
  "(do { e1 \<leftarrow> begin_text_scale label_editor 0 130 80 ''e'' False;
         e2 \<leftarrow> update_text_scale e1 134 80;
         Some (get_num (heap e2 0) ''size'') }) = Some (Some 19) \<and>
   spec_scaled_size 18 (spec_scale_ratio ''e'' False (30, 60, 130, 100) 134 80) = 1944 / 100"
proof -
  obtain e' where "update_text_scale label_scale_editor 134 80 = Some e'"
    and "get_num (heap e' 0) ''size'' = Some 19"
    using update_text_scale_result [OF label_scale_session label_scale_size, of 134 80]
    by (auto simp add: text_scale_factor_guarded label_ratio label_size)
  then have "(do { e1 \<leftarrow> begin_text_scale label_editor 0 130 80 ''e'' False;
         e2 \<leftarrow> update_text_scale e1 134 80;
         Some (get_num (heap e2 0) ''size'') }) = Some (Some 19)"
    by (simp add: begin_scale_label)
  moreover have "spec_scaled_size 18 (27 / 25) = 1944 / 100"
    by (simp add: spec_scaled_size_def clamp_def)
  ultimately show ?thesis by (simp add: label_spec_ratio)
qed

text \<open>
  The truncation is of the float product: the label of size 100 whose east handle is
  dragged to (129, 20) has the ratio 0.29, the float product 28.999999999999996 and so
  the size 28, where the exact product is 29.
\<close>

lemma wide_label_fields:
  "ds_transform wide_label_editor = Some (ScaleText 0 ''e'' False (0, 0, 200, 40) (Num 100))"
  "data (heap wide_label_editor 0) ''size'' = Some (Num 100)"
  by (simp_all add: wide_label_editor_def append_item_def init_editor_def Item_def
      text_data_def)

lemma wide_label_size:
  "\<exists>e'. update_text_scale wide_label_editor 129 20 = Some e' \<and>
         get_num (heap e' 0) ''size'' = Some 28"
proof -
  have ratio: "guarded_scale_ratio ''e'' False (0, 0, 200, 40) 129 20
        = 5224175567749775 / 18014398509481984"
    by (simp add: guarded_scale_ratio_def Let_def fl_small_integers fl_29_100)
  have size: "truncated_scaled_size 100 (5224175567749775 / 18014398509481984) = 28"
  proof -
    have "clamp (5224175567749775 / 18014398509481984) (fl (2 / 10)) 8
          = 5224175567749775 / 18014398509481984"
      unfolding fl_fifth by (simp add: clamp_def)
    then have "truncated_scaled_size 100 (5224175567749775 / 18014398509481984)
               = clamp (py_int (fl (100 * (5224175567749775 / 18014398509481984)))) 8 512"
      unfolding truncated_scaled_size_def by (simp only: fl_small_integers)
    also have "\<dots> = 28"
      unfolding fl_100_times by (simp add: clamp_def py_int_def)
    finally show ?thesis .
  qed
  show ?thesis
    using update_text_scale_result [OF wide_label_fields, of 129 20]
    unfolding text_scale_factor_guarded ratio size .
qed

text \<open>
  C5, amended. A ScaleText update completes and sets the size to
  clamp(int(initial size * ratio), 8, 512), where the product is the float product and
  int truncates it to an integer. The ratio is clamped to [0.2, 8] and comes from one
  axis for an edge handle, from the average of both for a corner handle, from their
  maximum when the proportional modifier was held; per axis it is the float quotient of
  the cursor's distance from the box centre by max(1, half-extent), which for an edge
  handle is the stated ratio rounded to a double when the half-extent is at least 1 and
  the centre, the distance and the half-extent are doubles as they stand.
\<close>

theorem text_scale_size:
  assumes "ds_transform e = Some (ScaleText r h k (x0, y0, x1, y1) (Num s0))"
      and "data (heap e r) ''size'' = Some cur"
  shows "(\<exists>e'. update_text_scale e px py = Some e' \<and>
            get_num (heap e' r) ''size''
              = Some (truncated_scaled_size s0
                        (guarded_scale_ratio h k (x0, y0, x1, y1) px py))) \<and>
         ((h = ''e'' \<or> h = ''w'') \<and> fl (x0 + x1) = x0 + x1 \<and>
          fl (px - (x0 + x1) / 2) = px - (x0 + x1) / 2 \<and>
          fl (x1 - (x0 + x1) / 2) = x1 - (x0 + x1) / 2 \<and> 1 \<le> x1 - (x0 + x1) / 2 \<longrightarrow>
            guarded_scale_ratio h k (x0, y0, x1, y1) px py
              = fl (spec_scale_ratio h k (x0, y0, x1, y1) px py)) \<and>
         ((h = ''n'' \<or> h = ''s'') \<and> fl (y0 + y1) = y0 + y1 \<and>
          fl (py - (y0 + y1) / 2) = py - (y0 + y1) / 2 \<and>
          fl (y1 - (y0 + y1) / 2) = y1 - (y0 + y1) / 2 \<and> 1 \<le> y1 - (y0 + y1) / 2 \<longrightarrow>
            guarded_scale_ratio h k (x0, y0, x1, y1) px py
              = fl (spec_scale_ratio h k (x0, y0, x1, y1) px py))"
  using update_text_scale_result [OF assms, of px py]
    guarded_is_rounded_spec_x [of h x0 x1 px k y0 y1 py]
    guarded_is_rounded_spec_y [of h y0 y1 py k x0 x1 px]
  by (simp add: text_scale_factor_guarded)

theorem text_scale_size_witness:
  "ds_transform label_scale_editor
     = Some (ScaleText 0 ''e'' False (30, 60, 130, 100) (Num 18)) \<and>
   data (heap label_scale_editor 0) ''size'' = Some (Num 18) \<and>
   (\<exists>e'. update_text_scale label_scale_editor 134 80 = Some e' \<and>
      get_num (heap e' 0) ''size'' = Some 19) \<and>
   fl (30 + 130) = 30 + 130 \<and> fl (134 - (30 + 130) / 2) = 134 - (30 + 130) / 2 \<and>
   fl (130 - (30 + 130) / 2) = 130 - (30 + 130) / 2 \<and> (1::real) \<le> 130 - (30 + 130) / 2 \<and>
   guarded_scale_ratio ''e'' False (30, 60, 130, 100) 134 80
     = fl (spec_scale_ratio ''e'' False (30, 60, 130, 100) 134 80)"
  using text_scale_size [OF label_scale_session label_scale_size, of 134 80]
    label_scale_session label_scale_size
  by (simp add: label_ratio label_size label_spec_ratio fl_small_integers fl_27_25)

subsection \<open>Hit-testing a text\<close>













subsection \<open>What the handlers leave alone\<close>

lemma same_lists_refl: "same_lists e e"
  by (simp add: same_lists_def)

lemma same_lists_trans: "same_lists e e1 \<Longrightarrow> same_lists e1 e2 \<Longrightarrow> same_lists e e2"
  by (simp add: same_lists_def)

lemma same_lists_inv: "same_lists e e' \<Longrightarrow> scene_inv e \<Longrightarrow> scene_inv e'"
  by (simp add: same_lists_def scene_inv_def)

lemma set_item_same: "same_lists e (set_item e r it)"
  by (simp add: same_lists_def set_item_def)

lemma move_item_same: "move_item e r dx dy = Some e' \<Longrightarrow> same_lists e e'"
  by (auto simp add: move_item_def Let_def same_lists_def set_item_def
      split: if_splits bind_splits)

lemma move_items_same: "move_items e rs dx dy = Some e' \<Longrightarrow> same_lists e e'"
proof (induction rs arbitrary: e)
  case Nil
  then show ?case by (simp add: same_lists_refl)
next
  case (Cons r rs)
  then obtain e1 where "move_item e r dx dy = Some e1" "move_items e1 rs dx dy = Some e'"
    by (auto split: bind_splits)
  then show ?case using Cons.IH move_item_same same_lists_trans by blast
qed

lemma begin_move_selected_same: "begin_move_selected e px py = Some e' \<Longrightarrow> same_lists e e'"
  by (auto simp add: begin_move_selected_def same_lists_def split: bind_splits)

lemma begin_move_group_same: "begin_move_group e px py = Some e' \<Longrightarrow> same_lists e e'"
  by (auto simp add: begin_move_group_def same_lists_def split: bind_splits)

lemma begin_text_scale_same: "begin_text_scale e r px py h k = Some e' \<Longrightarrow> same_lists e e'"
  by (auto simp add: begin_text_scale_def same_lists_def split: bind_splits)

lemma begin_text_rotate_same: "begin_text_rotate e r px py = Some e' \<Longrightarrow> same_lists e e'"
  by (auto simp add: begin_text_rotate_def same_lists_def Let_def split: bind_splits prod.splits)

lemma begin_room_resize_same: "same_lists e (begin_room_resize e r px py h)"
  by (simp add: begin_room_resize_def same_lists_def)

lemma begin_segment_endpoint_same: "same_lists e (begin_segment_endpoint e r px py w)"
  by (simp add: begin_segment_endpoint_def same_lists_def)

lemma begin_segment_rotate_same: "begin_segment_rotate e r px py = Some e' \<Longrightarrow> same_lists e e'"
  by (auto simp add: begin_segment_rotate_def same_lists_def Let_def split: bind_splits prod.splits)

lemma update_text_scale_same: "update_text_scale e px py = Some e' \<Longrightarrow> same_lists e e'"
  by (auto simp add: update_text_scale_def same_lists_def set_item_def Let_def
      split: option.splits transform.splits val.splits bind_splits if_splits)

lemma update_text_rotate_same: "update_text_rotate e px py = Some e' \<Longrightarrow> same_lists e e'"
  by (auto simp add: update_text_rotate_def same_lists_def set_item_def Let_def
      split: option.splits transform.splits prod.splits)

lemma update_room_resize_same: "update_room_resize e px py = Some e' \<Longrightarrow> same_lists e e'"
  by (auto simp add: update_room_resize_def same_lists_def set_item_def Let_def
      split: option.splits transform.splits bind_splits)

lemma update_segment_endpoint_same:
  "update_segment_endpoint e px py = Some e' \<Longrightarrow> same_lists e e'"
  by (auto simp add: update_segment_endpoint_def same_lists_def set_item_def
      split: option.splits transform.splits bind_splits if_splits)

lemma update_segment_rotate_same:
  "update_segment_rotate e px py = Some e' \<Longrightarrow> same_lists e e'"
  by (auto simp add: update_segment_rotate_def same_lists_def set_item_def Let_def
      split: option.splits transform.splits prod.splits)

lemma continue_transform_same: "continue_transform e px py = Some e' \<Longrightarrow> same_lists e e'"
proof (cases "ds_transform e")
  case None
  then show "continue_transform e px py = Some e' \<Longrightarrow> same_lists e e'"
    by (simp add: continue_transform_def same_lists_refl)
next
  case (Some t)
  assume run: "continue_transform e px py = Some e'"
  show "same_lists e e'"
  proof (cases t)
    case (MoveAny anchor it)
    with Some run obtain w r where "it = Some r"
      "move_item (e\<lparr>ds_transform := Some (MoveAny w it)\<rparr>) r (fst w - fst anchor) (snd w - snd anchor) = Some e'"
      by (auto simp add: continue_transform_def split: bind_splits prod.splits)
    from move_item_same [OF this(2)] show ?thesis by (simp add: same_lists_def)
  next
    case (MoveGroup anchor)
    with Some run obtain w where
      "move_items (e\<lparr>ds_transform := Some (MoveGroup w)\<rparr>) (selected_items e)
         (fst w - fst anchor) (snd w - snd anchor) = Some e'"
      by (auto simp add: continue_transform_def split: bind_splits prod.splits)
    from move_items_same [OF this] show ?thesis by (simp add: same_lists_def)
  next
    case ScaleText
    with Some run show ?thesis by (simp add: continue_transform_def update_text_scale_same)
  next
    case RotateText
    with Some run show ?thesis by (simp add: continue_transform_def update_text_rotate_same)
  next
    case RoomResize
    with Some run show ?thesis by (simp add: continue_transform_def update_room_resize_same)
  next
    case SegEndpoint
    with Some run show ?thesis by (simp add: continue_transform_def update_segment_endpoint_same)
  next
    case SegRotate
    with Some run show ?thesis by (simp add: continue_transform_def update_segment_rotate_same)
  qed
qed

lemma same_lists_scene: "same_lists e e' \<Longrightarrow> same_scene e e'"
  by (simp add: same_lists_def same_scene_def)

lemma same_scene_refl: "same_scene e e"
  by (simp add: same_scene_def)

lemma same_scene_trans: "same_scene e e1 \<Longrightarrow> same_scene e1 e2 \<Longrightarrow> same_scene e e2"
  by (simp add: same_scene_def)

lemma same_scene_inv: "same_scene e e' \<Longrightarrow> scene_inv e \<Longrightarrow> scene_inv e'"
  by (simp add: same_scene_def scene_inv_def)

lemma clear_selection_scene: "same_scene e (clear_selection e)"
  by (simp add: same_scene_def clear_selection_def)

lemma select_single_scene: "same_scene e (select_single e r)"
  by (simp add: same_scene_def select_single_def clear_selection_def set_item_def Let_def)

lemma begin_on_selection_same:
  assumes "begin_on_selection e px py m = Some (Some e')"
  shows "same_lists e e'"
proof (cases "selection e")
  case None
  with assms show ?thesis by (simp add: begin_on_selection_def)
next
  case (Some r)
  consider (istext) "kind (heap e r) = ''text''"
    | (isroom) "kind (heap e r) \<noteq> ''text''" "kind (heap e r) = ''room''"
    | (isseg) "kind (heap e r) \<noteq> ''text''" "kind (heap e r) \<noteq> ''room''"
        "segment_kind (kind (heap e r))"
    | (isother) "kind (heap e r) \<noteq> ''text''" "kind (heap e r) \<noteq> ''room''"
        "\<not> segment_kind (kind (heap e r))"
    by blast
  then show ?thesis
  proof cases
    case istext
    with assms Some show ?thesis
      by (auto simp add: begin_on_selection_def Let_def
          dest: begin_text_rotate_same begin_text_scale_same begin_move_selected_same
          split: option.splits if_splits)
  next
    case isroom
    with assms Some show ?thesis
      by (auto simp add: begin_on_selection_def Let_def begin_room_resize_same
          dest: begin_move_selected_same
          split: option.splits if_splits bind_splits)
  next
    case isseg
    with assms Some show ?thesis
      by (auto simp add: begin_on_selection_def Let_def begin_segment_endpoint_same
          dest: begin_move_selected_same begin_segment_rotate_same
          split: option.splits if_splits bind_splits)
  next
    case isother
    with assms Some show ?thesis by (simp add: begin_on_selection_def Let_def)
  qed
qed

lemma pick_item_scene:
  assumes "pick_item e px py am = Some (h, e')"
  shows "same_scene e e'"
proof -
  obtain hit where hit: "hit_test e px py = Some hit"
    using assms by (auto simp add: pick_item_def split: bind_splits)
  show ?thesis
  proof (cases hit)
    case None
    with assms hit show ?thesis
      by (auto simp add: pick_item_def same_scene_refl clear_selection_scene split: if_splits)
  next
    case (Some r)
    let ?e2 = "select_single e r"
    have "e' = ?e2 \<or> begin_move_selected ?e2 px py = Some e'"
      using assms hit Some
      by (auto simp add: pick_item_def Let_def split: if_splits bind_splits)
    then have "same_scene ?e2 e'"
      using begin_move_selected_same same_lists_scene same_scene_refl by blast
    with select_single_scene [of e r] show ?thesis by (rule same_scene_trans)
  qed
qed

lemma select_or_begin_transform_scene:
  assumes "select_or_begin_transform e px py m am = Some (h, e')"
  shows "same_scene e e'"
proof -
  have "begin_move_group e px py = Some e' \<or>
        begin_on_selection e px py m = Some (Some e') \<or>
        pick_item e px py am = Some (h, e')"
    using assms
    by (auto simp add: select_or_begin_transform_def split: bind_splits if_splits option.splits)
  then show ?thesis
    using begin_move_group_same begin_on_selection_same pick_item_scene same_lists_scene
    by blast
qed

lemma erase_at_inv:
  assumes "erase_at e px py = Some e'" and "scene_inv e"
  shows "scene_inv e'"
  using assms
  by (auto simp add: erase_at_def scene_inv_def list_all_iff
      split: bind_splits option.splits dest: notin_set_remove1)

lemma append_item_inv: "scene_inv e \<Longrightarrow> scene_inv (append_item e it)"
  by (auto simp add: scene_inv_def append_item_def list_all_iff)

lemma clear_draw_state_same: "same_lists e (clear_draw_state e)"
  by (simp add: clear_draw_state_def same_lists_def)

subsection \<open>Finalizing a new item\<close>

lemma appended_append_item: "appended e (append_item e it) it"
  by (simp add: appended_def append_item_def)

lemma appended_clear:
  "appended e e1 it \<Longrightarrow> appended e ((clear_draw_state e1)\<lparr>temp_preview := None\<rparr>) it"
  by (simp add: appended_def clear_draw_state_def)

lemma on_left_down_shape:
  assumes "on_left_down e px py m ans = Some e'"
  shows "same_scene e e' \<or>
         (\<exists>a b. a \<noteq> b \<and> segment_kind (active_tool e) \<and>
                 appended e e' (Item (active_tool e) (segment_data a b))) \<or>
         (\<exists>p txt. appended e e' (Item ''text'' (text_data p txt))) \<or>
         erase_at e px py = Some e'"
proof -
  obtain wx wy where w: "pointer_world e px py = Some (wx, wy)"
    using assms by (auto simp add: on_left_down_def split: bind_splits)
  consider (c_pan) "pan_active e"
    | (c_sel) "\<not> pan_active e" "active_tool e = ''select''"
    | (c_seg) "\<not> pan_active e" "active_tool e \<noteq> ''select''" "segment_kind (active_tool e)"
    | (c_room) "\<not> pan_active e" "active_tool e \<noteq> ''select''" "\<not> segment_kind (active_tool e)"
        "active_tool e = ''room''"
    | (c_txt) "\<not> pan_active e" "active_tool e \<noteq> ''select''" "\<not> segment_kind (active_tool e)"
        "active_tool e \<noteq> ''room''" "active_tool e = ''text''"
    | (c_ruler) "\<not> pan_active e" "active_tool e \<noteq> ''select''" "\<not> segment_kind (active_tool e)"
        "active_tool e \<noteq> ''room''" "active_tool e \<noteq> ''text''" "active_tool e = ''ruler''"
    | (c_eraser) "\<not> pan_active e" "active_tool e \<noteq> ''select''" "\<not> segment_kind (active_tool e)"
        "active_tool e \<noteq> ''room''" "active_tool e \<noteq> ''text''" "active_tool e \<noteq> ''ruler''"
        "active_tool e = ''eraser''"
    | (c_none) "\<not> pan_active e" "active_tool e \<noteq> ''select''" "\<not> segment_kind (active_tool e)"
        "active_tool e \<noteq> ''room''" "active_tool e \<noteq> ''text''" "active_tool e \<noteq> ''ruler''"
        "active_tool e \<noteq> ''eraser''"
    by blast
  then show ?thesis
  proof cases
    case c_pan
    with assms w have "e' = on_pan_start e px py" by (simp add: on_left_down_def)
    then have "same_scene e e'" by (simp add: same_scene_def on_pan_start_def)
    then show ?thesis by simp
  next
    case c_sel
    with assms w obtain h e1 where s: "select_or_begin_transform e px py m True = Some (h, e1)"
      and e': "e' = (if \<not> h then e1\<lparr>ds_marquee := Some ((px, py), (px, py))\<rparr> else e1)"
      by (auto simp add: on_left_down_def split: bind_splits)
    from e' have "same_scene e1 e'" by (simp add: same_scene_def)
    with select_or_begin_transform_scene [OF s] have "same_scene e e'"
      by (rule same_scene_trans)
    then show ?thesis by simp
  next
    case c_seg
    show ?thesis
    proof (cases "ds_start e")
      case None
      with assms w c_seg have "same_scene e e'"
        by (auto simp add: on_left_down_def same_scene_def)
      then show ?thesis by simp
    next
      case (Some a)
      show ?thesis
      proof (cases "a = (wx, wy)")
        case True
        with assms w c_seg Some have "e' = (clear_draw_state e)\<lparr>temp_preview := None\<rparr>"
          by (simp add: on_left_down_def)
        then have "same_scene e e'" by (simp add: same_scene_def clear_draw_state_def)
        then show ?thesis by simp
      next
        case False
        with assms w c_seg Some have
          "e' = (clear_draw_state (append_item e (Item (active_tool e) (segment_data a (wx, wy)))))
                  \<lparr>temp_preview := None\<rparr>"
          by (simp add: on_left_down_def)
        then have "appended e e' (Item (active_tool e) (segment_data a (wx, wy)))"
          using appended_clear [OF appended_append_item] by simp
        with False c_seg show ?thesis by blast
      qed
    qed
  next
    case c_room
    with assms w have "same_scene e e'"
      by (auto simp add: on_left_down_def same_scene_def)
    then show ?thesis by simp
  next
    case c_txt
    with assms w have "e' = e \<or> (\<exists>t. e' = append_item e (Item ''text'' (text_data (wx, wy) t)))"
      by (auto simp add: on_left_down_def split: option.splits if_splits)
    then show ?thesis using same_scene_refl appended_append_item by blast
  next
    case c_ruler
    with assms w have "same_scene e e'"
      by (auto simp add: on_left_down_def same_scene_def Let_def split: option.splits if_splits)
    then show ?thesis by simp
  next
    case c_eraser
    with assms w show ?thesis by (simp add: on_left_down_def)
  next
    case c_none
    with assms w have "e' = e" by (simp add: on_left_down_def)
    then show ?thesis by (simp add: same_scene_refl)
  qed
qed

lemma marquee_sels_sub:
  "marquee_sels e rect_px rs = Some sels \<Longrightarrow> set sels \<subseteq> set rs \<and> (distinct rs \<longrightarrow> distinct sels)"
proof (induction rs arbitrary: sels)
  case Nil
  then show ?case by simp
next
  case (Cons r rs)
  then obtain h rest where "marquee_sels e rect_px rs = Some rest"
    and "sels = (if h then r # rest else rest)"
    by (auto split: bind_splits)
  with Cons.IH [of rest] show ?case by auto
qed

lemma apply_marquee_selection_shape:
  assumes "apply_marquee_selection e rect_px = Some e'"
  shows "items e' = items e \<and> next_ref e' = next_ref e \<and> zoom e' = zoom e \<and>
         (distinct (items e) \<longrightarrow> distinct (selected_items e'))"
proof -
  obtain sels where "marquee_sels e rect_px (items e) = Some sels"
    and "selected_items e' = sels \<and> items e' = items e \<and> next_ref e' = next_ref e \<and>
         zoom e' = zoom e"
    using assms
    by (auto simp add: apply_marquee_selection_def clear_selection_def Let_def split: bind_splits)
  with marquee_sels_sub [of e rect_px "items e" sels] show ?thesis by simp
qed

lemma on_left_up_shape:
  assumes "on_left_up e px py = Some e'"
  shows "(items e' = items e \<and> next_ref e' = next_ref e \<and> zoom e' = zoom e \<and>
          (distinct (items e) \<and> distinct (selected_items e) \<longrightarrow> distinct (selected_items e'))) \<or>
         (\<exists>a b. a \<noteq> b \<and> appended e e' (Item ''room'' (segment_data a b)))"
proof -
  consider (c_room) "active_tool e = ''room''" "ds_start e \<noteq> None"
    | (c_sel) "\<not> (active_tool e = ''room'' \<and> ds_start e \<noteq> None)" "active_tool e = ''select''"
    | (c_none) "\<not> (active_tool e = ''room'' \<and> ds_start e \<noteq> None)" "active_tool e \<noteq> ''select''"
    by blast
  then show ?thesis
  proof cases
    case c_room
    with assms obtain wx wy a where "pointer_world e px py = Some (wx, wy)" "ds_start e = Some a"
      and e': "e' = (clear_draw_state (if a \<noteq> (wx, wy)
                  then append_item e (Item ''room'' (segment_data a (wx, wy))) else e))
                \<lparr>temp_preview := None\<rparr>"
      by (auto simp add: on_left_up_def Let_def split: bind_splits)
    show ?thesis
    proof (cases "a = (wx, wy)")
      case True
      with e' show ?thesis by (simp add: clear_draw_state_def)
    next
      case False
      with e' have "appended e e' (Item ''room'' (segment_data a (wx, wy)))"
        using appended_clear [OF appended_append_item] by simp
      with False show ?thesis by blast
    qed
  next
    case c_sel
    show ?thesis
    proof (cases "ds_marquee e")
      case None
      with assms c_sel have "e' = e\<lparr>ds_transform := None\<rparr>"
        by (auto simp add: on_left_up_def)
      then show ?thesis by simp
    next
      case (Some mq)
      with assms c_sel obtain rect_px e1 where "apply_marquee_selection e rect_px = Some e1"
        and "e' = e1\<lparr>ds_marquee := None\<rparr>"
        by (auto simp add: on_left_up_def split: prod.splits bind_splits if_splits)
      with apply_marquee_selection_shape [of e rect_px e1] show ?thesis by simp
    qed
  next
    case c_none
    with assms have "e' = e" by (auto simp add: on_left_up_def)
    then show ?thesis by simp
  qed
qed

lemma segment_data_differ: "a \<noteq> b \<Longrightarrow> points_differ (Item k (segment_data a b))"
  by (cases a; cases b) (simp add: points_differ_def Item_def segment_data_def get_pt_def)

lemma erase_at_items: "erase_at e px py = Some e' \<Longrightarrow> set (items e') \<subseteq> set (items e)"
  by (auto simp add: erase_at_def split: bind_splits option.splits
      dest: set_remove1_subset [THEN subsetD])

lemma room_tool_fields:
  "active_tool room_tool_editor = ''room''" "snap_enabled room_tool_editor"
  "zoom room_tool_editor = 1" "origin room_tool_editor = (80, 80)"
  "\<not> pan_active room_tool_editor" "ds_start room_tool_editor = None"
  "items room_tool_editor = []" "next_ref room_tool_editor = 0"
  by (simp_all add: room_tool_editor_def tool_changed_def clear_draw_state_def init_editor_def)

lemma pointer_world_at_start:
  assumes "zoom e = 1" and "origin e = (80, 80)" and "snap_enabled e"
  shows "pointer_world e 80 80 = Some (0, 0)" and "pointer_world e 80 240 = Some (0, 5)"
  using assms
  by (simp_all add: pointer_world_def canvas_to_world_def py_div_def grid_px_def GRID_SIZE_PX_def
        snap_world_def py_round_def)

lemma room_tool_down:
  "on_left_down room_tool_editor 80 80 0 None
   = Some (room_tool_editor\<lparr>ds_start := Some (0, 0),
             temp_preview := Some (''room'', (0, 0), (0, 0))\<rparr>)"
  by (simp add: on_left_down_def pointer_world_at_start room_tool_fields segment_kind_def Let_def)

lemma room_tool_up:
  "on_left_up (room_tool_editor\<lparr>ds_start := Some (0, 0),
             temp_preview := Some (''room'', (0, 0), (0, 0))\<rparr>) 80 240
   = Some ((clear_draw_state (append_item (room_tool_editor\<lparr>ds_start := Some (0, 0),
             temp_preview := Some (''room'', (0, 0), (0, 0))\<rparr>)
               (Item ''room'' (segment_data (0, 0) (0, 5)))))\<lparr>temp_preview := None\<rparr>)"
  by (simp add: on_left_up_def pointer_world_at_start room_tool_fields Let_def)

text \<open>
  C2, as stated, fails: with the room tool, a press at (80, 80) and a release at
  (80, 240) append a room from (0, 0) to (0, 5), a rectangle of width zero.
\<close>

theorem room_with_zero_width_is_appended:
  "(do { e1 \<leftarrow> on_left_down room_tool_editor 80 80 0 None;
         e2 \<leftarrow> on_left_up e1 80 240;
         Some (items e2, kind (heap e2 0), get_pt (heap e2 0) ''a'', get_pt (heap e2 0) ''b'') })
     = Some ([0], ''room'', Some (0, 0), Some (0, 5)) \<and>
   \<not> nonzero_area (Item ''room'' (segment_data (0, 0) (0, 5)))"
  by (simp add: room_tool_down room_tool_up clear_draw_state_def append_item_def room_tool_fields
      Item_def segment_data_def get_pt_def nonzero_area_def)

text \<open>
  C2, amended. Whatever a pointer press or release appends to the scene, if it is a wall,
  a door, a window or a room then its two stored points are present and differ: a new
  segment has two distinct endpoints, and a new room two distinct corners (its width or
  its height may still be zero, not both).
\<close>

theorem finalized_points_differ:
  assumes "on_left_down e px py m ans = Some e' \<or> on_left_up e px py = Some e'"
      and "r \<in> set (items e')" and "r \<notin> set (items e)"
      and "segment_kind (kind (heap e' r)) \<or> kind (heap e' r) = ''room''"
  shows "points_differ (heap e' r)"
proof -
  have new: "heap e' r = it" if "appended e e' it" for it
    using that assms(2,3) by (auto simp add: appended_def)
  have changed: "items e' \<noteq> items e" using assms(2,3) by auto
  have not_text: "kind (heap e' r) \<noteq> ''text''"
    using assms(4) by (auto simp add: segment_kind_def)
  from assms(1) show ?thesis
  proof
    assume "on_left_down e px py m ans = Some e'"
    from on_left_down_shape [OF this]
    consider (same) "same_scene e e'"
      | (seg) a b where "a \<noteq> b" "appended e e' (Item (active_tool e) (segment_data a b))"
      | (label) p t where "appended e e' (Item ''text'' (text_data p t))"
      | (erased) "erase_at e px py = Some e'"
      by blast
    then show ?thesis
    proof cases
      case same
      with changed show ?thesis by (simp add: same_scene_def)
    next
      case seg
      with new [OF seg(2)] show ?thesis by (simp add: segment_data_differ)
    next
      case label
      with new [OF label] not_text show ?thesis by (simp add: Item_def)
    next
      case erased
      with erase_at_items [OF erased] assms(2,3) show ?thesis by auto
    qed
  next
    assume "on_left_up e px py = Some e'"
    from on_left_up_shape [OF this] changed
    obtain a b where "a \<noteq> b" "appended e e' (Item ''room'' (segment_data a b))"
      by auto
    with new [OF this(2)] show ?thesis by (simp add: segment_data_differ)
  qed
qed

lemma wall_started_fields:
  "active_tool wall_started_editor = ''wall''" "snap_enabled wall_started_editor"
  "zoom wall_started_editor = 1" "origin wall_started_editor = (80, 80)"
  "\<not> pan_active wall_started_editor" "ds_start wall_started_editor = Some (0, 0)"
  "items wall_started_editor = []" "next_ref wall_started_editor = 0"
  by (simp_all add: wall_started_editor_def tool_changed_def clear_draw_state_def
      init_editor_def)

lemma wall_second_click:
  "on_left_down wall_started_editor 240 80 0 None
   = Some ((clear_draw_state (append_item wall_started_editor
              (Item ''wall'' (segment_data (0, 0) (5, 0)))))\<lparr>temp_preview := None\<rparr>)"
proof -
  have "pointer_world wall_started_editor 240 80 = Some (5, 0)"
    by (simp add: pointer_world_def canvas_to_world_def py_div_def grid_px_def GRID_SIZE_PX_def
        snap_world_def py_round_def wall_started_fields)
  then show ?thesis
    by (simp add: on_left_down_def wall_started_fields segment_kind_def Let_def)
qed

theorem finalized_points_differ_witness:
  "on_left_down wall_started_editor 240 80 0 None
     = Some ((clear_draw_state (append_item wall_started_editor
                (Item ''wall'' (segment_data (0, 0) (5, 0)))))\<lparr>temp_preview := None\<rparr>) \<and>
   items ((clear_draw_state (append_item wall_started_editor
                (Item ''wall'' (segment_data (0, 0) (5, 0)))))\<lparr>temp_preview := None\<rparr>) = [0] \<and>
   items wall_started_editor = [] \<and>
   points_differ (heap ((clear_draw_state (append_item wall_started_editor
                (Item ''wall'' (segment_data (0, 0) (5, 0)))))\<lparr>temp_preview := None\<rparr>) 0)"
proof -
  let ?e' = "(clear_draw_state (append_item wall_started_editor
                (Item ''wall'' (segment_data (0, 0) (5, 0)))))\<lparr>temp_preview := None\<rparr>"
  have run: "on_left_down wall_started_editor 240 80 0 None = Some ?e' \<or>
             on_left_up wall_started_editor 240 80 = Some ?e'"
    by (simp add: wall_second_click)
  have its: "items ?e' = [0]"
    by (simp add: clear_draw_state_def append_item_def wall_started_fields)
  have mem: "0 \<in> set (items ?e')" by (simp add: its)
  have new: "0 \<notin> set (items wall_started_editor)" by (simp add: wall_started_fields)
  have k: "segment_kind (kind (heap ?e' 0)) \<or> kind (heap ?e' 0) = ''room''"
    by (simp add: clear_draw_state_def append_item_def wall_started_fields Item_def
        segment_kind_def)
  from finalized_points_differ [OF run mem new k] its show ?thesis
    by (simp add: wall_second_click wall_started_fields)
qed

subsection \<open>The scene invariant\<close>

lemma init_inv: "scene_inv init_editor"
  by (simp add: scene_inv_def init_editor_def)

lemma appended_inv: "appended e e' it \<Longrightarrow> scene_inv e \<Longrightarrow> scene_inv e'"
  by (auto simp add: appended_def scene_inv_def list_all_iff)

lemma on_left_down_inv:
  assumes "on_left_down e px py m ans = Some e'" and "scene_inv e"
  shows "scene_inv e'"
  using on_left_down_shape [OF assms(1)] assms(2)
  by (auto intro: same_scene_inv appended_inv erase_at_inv)

lemma on_left_drag_inv:
  assumes "on_left_drag e px py = Some e'" and "scene_inv e"
  shows "scene_inv e'"
proof -
  have "same_lists e e'"
  proof (cases "\<not> pan_active e \<and> \<not> (segment_kind (active_tool e) \<or> active_tool e = ''room'')
                \<and> active_tool e = ''select'' \<and> ds_marquee e = None")
    case True
    with assms(1) have "continue_transform e px py = Some e'"
      by (auto simp add: on_left_drag_def split: bind_splits)
    then show ?thesis by (rule continue_transform_same)
  next
    case False
    with assms(1) show ?thesis
      by (auto simp add: on_left_drag_def same_lists_def on_pan_drag_def on_pan_start_def Let_def
          split: bind_splits if_splits option.splits)
  qed
  then show ?thesis using assms(2) by (rule same_lists_inv)
qed

lemma on_left_up_inv:
  assumes "on_left_up e px py = Some e'" and "scene_inv e"
  shows "scene_inv e'"
proof -
  from on_left_up_shape [OF assms(1)]
  consider (same) "items e' = items e" "next_ref e' = next_ref e"
      "distinct (items e) \<and> distinct (selected_items e) \<longrightarrow> distinct (selected_items e')"
    | (new) a b where "appended e e' (Item ''room'' (segment_data a b))"
    by blast
  then show ?thesis
  proof cases
    case same
    with assms(2) show ?thesis by (simp add: scene_inv_def)
  next
    case new
    then show ?thesis using assms(2) by (rule appended_inv)
  qed
qed

lemma on_right_click_inv:
  assumes "on_right_click e px py = Some e'" and "scene_inv e"
  shows "scene_inv e'"
proof -
  have "e' = e \<or> (\<exists>r. e' = select_single e r) \<or> (\<exists>r it. e' = set_item (select_single e r) r it)"
    using assms(1)
    by (auto simp add: on_right_click_def Let_def split: bind_splits option.splits if_splits)
  then have "same_scene e e'"
    using select_single_scene same_scene_refl
    by (auto simp add: same_scene_def set_item_def)
  then show ?thesis using assms(2) by (rule same_scene_inv)
qed

lemma delete_item_inv: "scene_inv e \<Longrightarrow> scene_inv (delete_item e r)"
  by (auto simp add: delete_item_def scene_inv_def list_all_iff dest: notin_set_remove1
      set_remove1_subset [THEN subsetD])

lemma fold_remove_distinct:
  "distinct xs \<Longrightarrow>
   distinct (fold (\<lambda>r xs. if r \<in> set xs then remove1 r xs else xs) rs xs) \<and>
   set (fold (\<lambda>r xs. if r \<in> set xs then remove1 r xs else xs) rs xs) \<subseteq> set xs"
proof (induction rs arbitrary: xs)
  case Nil
  then show ?case by simp
next
  case (Cons r rs)
  show ?case
  proof (cases "r \<in> set xs")
    case True
    with Cons.IH [of "remove1 r xs"] Cons.prems show ?thesis
      using set_remove1_subset [of r xs] by auto
  next
    case False
    with Cons.IH [of xs] Cons.prems show ?thesis by simp
  qed
qed

lemma delete_selection_inv: "scene_inv e \<Longrightarrow> scene_inv (delete_selection e)"
  using fold_remove_distinct [of "items e" "selected_items e"]
  by (auto simp add: delete_selection_def scene_inv_def list_all_iff
      split: option.splits dest: set_remove1_subset [THEN subsetD])

lemma fold_append_item_inv:
  "scene_inv e \<Longrightarrow> scene_inv (fold (\<lambda>obj s. append_item s (Item (fst obj) (snd obj))) objs e)"
  by (induction objs arbitrary: e) (simp_all add: append_item_inv)

lemma load_json_inv: "scene_inv e \<Longrightarrow> scene_inv (load_json e doc)"
proof -
  assume "scene_inv e"
  then have "scene_inv (e\<lparr>items := []\<rparr>)" by (simp add: scene_inv_def)
  then have "scene_inv (fold (\<lambda>obj s. append_item s (Item (fst obj) (snd obj))) (doc_items doc)
                 (e\<lparr>items := []\<rparr>))"
    by (rule fold_append_item_inv)
  then show ?thesis
    by (simp add: load_json_def Let_def scene_inv_def clear_selection_def)
qed

lemma zoom_by_inv: "zoom_by e f w h = Some e' \<Longrightarrow> scene_inv e \<Longrightarrow> scene_inv e'"
  by (auto simp add: zoom_by_def Let_def scene_inv_def split: if_splits bind_splits prod.splits)

text \<open>Every state the editor reaches satisfies the scene invariant.\<close>

lemma reachable_inv: "reachable e \<Longrightarrow> scene_inv e"
proof (induction rule: reachable.induct)
  case start
  show ?case by (rule init_inv)
next
  case (left_down e px py m ans e')
  then show ?case by (simp add: on_left_down_inv)
next
  case (left_drag e px py e')
  then show ?case by (simp add: on_left_drag_inv)
next
  case (left_up e px py e')
  then show ?case by (simp add: on_left_up_inv)
next
  case (right_click e px py e')
  then show ?case by (simp add: on_right_click_inv)
next
  case (menu_delete e r)
  then show ?case by (simp add: delete_item_inv)
next
  case (key_delete e)
  then show ?case by (simp add: delete_selection_inv)
next
  case (tool e t)
  then show ?case by (simp add: scene_inv_def tool_changed_def clear_draw_state_def)
next
  case (zoomed e f w h e')
  then show ?case by (simp add: zoom_by_inv)
next
  case (view_reset e)
  then show ?case by (simp add: scene_inv_def reset_view_def)
next
  case (pan_pressed e px py)
  then show ?case by (simp add: scene_inv_def on_pan_start_def)
next
  case (pan_dragged e px py)
  then show ?case by (simp add: scene_inv_def on_pan_drag_def on_pan_start_def Let_def)
next
  case (pan_released e)
  then show ?case by (simp add: scene_inv_def on_pan_end_def)
next
  case (options e s k g p)
  then show ?case by (simp add: scene_inv_def)
next
  case (loaded e doc)
  then show ?case by (simp add: load_json_inv)
next
  case (renewed e c)
  then show ?case by (simp add: scene_inv_def new_file_def clear_draw_state_def)
next
  case (fields e h)
  then show ?case by (simp add: scene_inv_def)
qed

lemma erase_at_zoom: "erase_at e px py = Some e' \<Longrightarrow> zoom e' = zoom e"
  by (auto simp add: erase_at_def split: bind_splits option.splits)

lemma on_left_down_zoom: "on_left_down e px py m ans = Some e' \<Longrightarrow> zoom e' = zoom e"
  using on_left_down_shape [of e px py m ans e'] erase_at_zoom [of e px py e']
  by (auto simp add: same_scene_def appended_def)

lemma on_left_drag_zoom:
  assumes "on_left_drag e px py = Some e'"
  shows "zoom e' = zoom e"
proof (cases "\<not> pan_active e \<and> \<not> (segment_kind (active_tool e) \<or> active_tool e = ''room'')
              \<and> active_tool e = ''select'' \<and> ds_marquee e = None")
  case True
  with assms have "continue_transform e px py = Some e'"
    by (auto simp add: on_left_drag_def split: bind_splits)
  from continue_transform_same [OF this] show ?thesis by (simp add: same_lists_def)
next
  case False
  with assms show ?thesis
    by (auto simp add: on_left_drag_def on_pan_drag_def on_pan_start_def Let_def
        split: bind_splits if_splits option.splits)
qed

lemma on_left_up_zoom: "on_left_up e px py = Some e' \<Longrightarrow> zoom e' = zoom e"
  using on_left_up_shape [of e px py e'] by (auto simp add: appended_def)

lemma on_right_click_zoom: "on_right_click e px py = Some e' \<Longrightarrow> zoom e' = zoom e"
  by (auto simp add: on_right_click_def Let_def select_single_def clear_selection_def
      set_item_def split: bind_splits option.splits if_splits)

text \<open>The zoom of every reachable state lies in [0.4, 2.5].\<close>

lemma reachable_zoom: "reachable e \<Longrightarrow> MIN_ZOOM \<le> zoom e \<and> zoom e \<le> MAX_ZOOM"
proof (induction rule: reachable.induct)
  case start
  show ?case by (simp add: init_editor_def MIN_ZOOM_def MAX_ZOOM_def)
next
  case (left_down e px py m ans e')
  then show ?case by (simp add: on_left_down_zoom)
next
  case (left_drag e px py e')
  then show ?case by (simp add: on_left_drag_zoom)
next
  case (left_up e px py e')
  then show ?case by (simp add: on_left_up_zoom)
next
  case (right_click e px py e')
  then show ?case by (simp add: on_right_click_zoom)
next
  case (menu_delete e r)
  then show ?case by (simp add: delete_item_def)
next
  case (key_delete e)
  then show ?case by (simp add: delete_selection_def split: option.splits)
next
  case (tool e t)
  then show ?case by (simp add: tool_changed_def clear_draw_state_def)
next
  case (zoomed e f w h e')
  have "zoom e' = zoom e \<or> zoom e' = clamp (zoom e * f) MIN_ZOOM MAX_ZOOM"
    using zoomed(2)
    by (auto simp add: zoom_by_def Let_def split: if_splits bind_splits prod.splits)
  then show ?case using zoomed(3)
    by (auto simp add: clamp_def MIN_ZOOM_def MAX_ZOOM_def)
next
  case (view_reset e)
  show ?case by (simp add: reset_view_def MIN_ZOOM_def MAX_ZOOM_def)
next
  case (pan_pressed e px py)
  then show ?case by (simp add: on_pan_start_def)
next
  case (pan_dragged e px py)
  then show ?case by (simp add: on_pan_drag_def on_pan_start_def Let_def)
next
  case (pan_released e)
  then show ?case by (simp add: on_pan_end_def)
next
  case (options e s k g p)
  then show ?case by simp
next
  case (loaded e doc)
  have "zoom (fold (\<lambda>obj s. append_item s (Item (fst obj) (snd obj))) objs e0) = zoom e0"
    for objs e0
    by (induction objs arbitrary: e0) (simp_all add: append_item_def)
  with loaded show ?case by (simp add: load_json_def Let_def clear_selection_def)
next
  case (renewed e c)
  then show ?case by (simp add: new_file_def clear_draw_state_def)
next
  case (fields e h)
  then show ?case by simp
qed

subsection \<open>Removing an item\<close>

lemma removed_is_the_one:
  assumes "r \<in> set xs" and "r \<notin> set (remove1 q xs)"
  shows "r = q"
  using assms by (metis in_set_remove1)

lemma erase_at_purges:
  assumes "erase_at e px py = Some e'" and "distinct (selected_items e)"
      and "r \<in> set (items e)" and "r \<notin> set (items e')"
  shows "r \<notin> set (selected_items e') \<and> selection e' \<noteq> Some r"
proof -
  from assms(1) obtain hit where hit: "hit_test e px py = Some hit"
    by (auto simp add: erase_at_def split: bind_splits)
  show ?thesis
  proof (cases hit)
    case None
    with assms(1) hit have "e' = e" by (simp add: erase_at_def)
    with assms(3,4) show ?thesis by simp
  next
    case (Some q)
    with assms(1) hit have e': "e' = e\<lparr>selection := (if selection e = Some q then None else selection e),
                  selected_items := remove1 q (selected_items e),
                  items := remove1 q (items e)\<rparr>"
      by (simp add: erase_at_def)
    with assms(3,4) have "r = q" by (simp add: removed_is_the_one)
    with e' assms(2) show ?thesis by simp
  qed
qed

lemma delete_item_purges:
  assumes "distinct (selected_items e)"
      and "r \<in> set (items e)" and "r \<notin> set (items (delete_item e q))"
  shows "r \<notin> set (selected_items (delete_item e q)) \<and> selection (delete_item e q) \<noteq> Some r"
proof (cases "q \<in> set (items e)")
  case True
  with assms(2,3) have "r = q" by (simp add: delete_item_def removed_is_the_one)
  with True assms(1) show ?thesis by (simp add: delete_item_def)
next
  case False
  with assms(2,3) show ?thesis by (simp add: delete_item_def)
qed

lemma delete_selection_purges:
  assumes "r \<in> set (items e)" and "r \<notin> set (items (delete_selection e))"
  shows "r \<notin> set (selected_items (delete_selection e)) \<and>
         selection (delete_selection e) \<noteq> Some r"
  using assms by (auto simp add: delete_selection_def split: option.splits if_splits)

text \<open>
  C7. When the eraser tool (or any other pointer press), the context menu's delete or
  the deletion of the selection takes an item out of the scene, the item is afterwards
  neither in the multi-selection nor the single selection. The multi-selection holds
  no reference twice, as in every reachable state.
\<close>

theorem removal_purges_selection:
  assumes "distinct (selected_items e)"
      and "on_left_down e px py m ans = Some e' \<or> e' = delete_item e q \<or>
           e' = delete_selection e"
      and "r \<in> set (items e)" and "r \<notin> set (items e')"
  shows "r \<notin> set (selected_items e') \<and> selection e' \<noteq> Some r"
proof -
  from assms(2) consider (press) "on_left_down e px py m ans = Some e'"
    | (menu) "e' = delete_item e q" | (key) "e' = delete_selection e"
    by blast
  then show ?thesis
  proof cases
    case press
    from on_left_down_shape [OF press] assms(3,4) have "erase_at e px py = Some e'"
      by (auto simp add: same_scene_def appended_def)
    then show ?thesis using assms(1,3,4) by (rule erase_at_purges)
  next
    case menu
    with delete_item_purges [OF assms(1), of r q] assms(3,4) show ?thesis by simp
  next
    case key
    with delete_selection_purges [of r e] assms(3,4) show ?thesis by simp
  qed
qed

lemma three_walls_fields:
  "items three_walls_editor = [0, 1, 2]" "selected_items three_walls_editor = [0, 1, 2]"
  "selection three_walls_editor = None"
  by (simp_all add: three_walls_editor_def append_item_def init_editor_def)

theorem removal_purges_selection_witness:
  "distinct (selected_items three_walls_editor) \<and>
   1 \<in> set (items three_walls_editor) \<and>
   1 \<notin> set (items (delete_item three_walls_editor 1)) \<and>
   selected_items (delete_item three_walls_editor 1) = [0, 2] \<and>
   1 \<notin> set (selected_items (delete_item three_walls_editor 1)) \<and>
   selection (delete_item three_walls_editor 1) \<noteq> Some 1"
proof -
  let ?e' = "delete_item three_walls_editor 1"
  have d: "distinct (selected_items three_walls_editor)" by (simp add: three_walls_fields)
  have op: "on_left_down three_walls_editor 0 0 0 None = Some ?e' \<or>
            ?e' = delete_item three_walls_editor 1 \<or> ?e' = delete_selection three_walls_editor"
    by simp
  have i: "1 \<in> set (items three_walls_editor)" by (simp add: three_walls_fields)
  have o: "1 \<notin> set (items ?e')" by (simp add: delete_item_def three_walls_fields)
  have s: "selected_items ?e' = [0, 2]" by (simp add: delete_item_def three_walls_fields)
  from removal_purges_selection [OF d op i o] d i o s show ?thesis by simp
qed

subsection \<open>Moving the selection\<close>









subsection \<open>The size and the angle of a text\<close>






















end
